theory Spec2Isabelle
  imports Complex_Main "HOL-Library.Log_Nat"
begin

section \<open>JavaScript numbers\<close>

text \<open>
  Both edge functions compute with JavaScript \<^emph>\<open>Number\<close>s, which are IEEE-754 binary64
  values. A finite double is kept as the rational it denotes; the two infinities and NaN
  are separate constructors. Negative zero is identified with zero: the handlers only
  compare, floor, multiply, divide, add and print numbers, and on these paths the two
  zeros lead to the same results.
\<close>

datatype number = NaN | PosInf | NegInf | Fin rat

text \<open>
  \<open>binade a\<close> is the exponent \<open>e\<close> with \<open>2\<^sup>e \<le> a < 2\<^sup>e\<^sup>+\<^sup>1\<close> of a positive rational,
  computed from the bit length of its integer part (or of the integer part of its inverse).
\<close>

definition binade :: "rat \<Rightarrow> int" where
  "binade a =
     (if 1 \<le> a then bitlen \<lfloor>a\<rfloor> - 1
      else let b = bitlen \<lfloor>1 / a\<rfloor>
           in if a * 2 powi (b - 1) = 1 then 1 - b else - b)"

text \<open>Rounding to the nearest integer, ties to the even one.\<close>

definition round_ties_even :: "rat \<Rightarrow> int" where
  "round_ties_even x =
     (let n = \<lfloor>x\<rfloor>; r = x - of_int n
      in if r < 1 / 2 then n else if 1 / 2 < r then n + 1
         else if even n then n else n + 1)"

text \<open>
  The spacing of doubles around a positive \<open>a\<close> is \<open>2\<close> to the power \<open>quantum a\<close>:
  53 significant bits, and no exponent below that of the subnormals.
\<close>

definition quantum :: "rat \<Rightarrow> int" where
  "quantum a = max (binade a - 52) (- 1074)"

definition round_magnitude :: "rat \<Rightarrow> rat" where
  "round_magnitude a = of_int (round_ties_even (a / 2 powi quantum a)) * 2 powi quantum a"

text \<open>
  \<open>round_double x\<close> is the Number value for the real \<open>x\<close>: round to nearest, ties to
  even, overflowing to an infinity from \<open>2\<^sup>1\<^sup>0\<^sup>2\<^sup>4\<close> on.
\<close>

definition round_double :: "rat \<Rightarrow> number" where
  "round_double x =
     (if x = 0 then Fin 0
      else if 0 < x
        then (let y = round_magnitude x in if 2 ^ 1024 \<le> y then PosInf else Fin y)
        else (let y = round_magnitude (- x) in if 2 ^ 1024 \<le> y then NegInf else Fin (- y)))"

text \<open>
  The operators the handlers apply to numbers: \<open><\<close>, \<open>/\<close>, \<open>*\<close>, \<open>+\<close> and \<open>Math.floor\<close>;
  and \<open>>=\<close>, in which the claims compare a quantity with the minimum.
\<close>

fun js_lt :: "number \<Rightarrow> number \<Rightarrow> bool" where
  "js_lt NaN _ = False"
| "js_lt _ NaN = False"
| "js_lt (Fin a) (Fin b) = (a < b)"
| "js_lt _ NegInf = False"
| "js_lt NegInf _ = True"
| "js_lt PosInf _ = False"
| "js_lt _ PosInf = True"

fun js_ge :: "number \<Rightarrow> number \<Rightarrow> bool" where
  "js_ge NaN _ = False"
| "js_ge _ NaN = False"
| "js_ge a b = (\<not> js_lt a b)"

fun js_div :: "number \<Rightarrow> number \<Rightarrow> number" where
  "js_div (Fin a) (Fin b) =
     (if b = 0 then (if a = 0 then NaN else if 0 < a then PosInf else NegInf)
      else round_double (a / b))"
| "js_div (Fin a) PosInf = Fin 0"
| "js_div (Fin a) NegInf = Fin 0"
| "js_div PosInf (Fin b) = (if b < 0 then NegInf else PosInf)"
| "js_div NegInf (Fin b) = (if b < 0 then PosInf else NegInf)"
| "js_div _ _ = NaN"

fun js_mul :: "number \<Rightarrow> number \<Rightarrow> number" where
  "js_mul (Fin a) (Fin b) = round_double (a * b)"
| "js_mul PosInf (Fin b) = (if b = 0 then NaN else if 0 < b then PosInf else NegInf)"
| "js_mul NegInf (Fin b) = (if b = 0 then NaN else if 0 < b then NegInf else PosInf)"
| "js_mul (Fin a) PosInf = (if a = 0 then NaN else if 0 < a then PosInf else NegInf)"
| "js_mul (Fin a) NegInf = (if a = 0 then NaN else if 0 < a then NegInf else PosInf)"
| "js_mul PosInf PosInf = PosInf"
| "js_mul NegInf NegInf = PosInf"
| "js_mul PosInf NegInf = NegInf"
| "js_mul NegInf PosInf = NegInf"
| "js_mul _ _ = NaN"

fun js_add :: "number \<Rightarrow> number \<Rightarrow> number" where
  "js_add (Fin a) (Fin b) = round_double (a + b)"
| "js_add NaN _ = NaN"
| "js_add _ NaN = NaN"
| "js_add PosInf NegInf = NaN"
| "js_add NegInf PosInf = NaN"
| "js_add PosInf _ = PosInf"
| "js_add NegInf _ = NegInf"
| "js_add _ PosInf = PosInf"
| "js_add _ NegInf = NegInf"

fun js_floor :: "number \<Rightarrow> number" where
  "js_floor (Fin a) = Fin (of_int \<lfloor>a\<rfloor>)"
| "js_floor x = x"

section \<open>Numeric text\<close>

text \<open>
  Strings are lists of 8-bit characters, so the model covers ASCII text; white space is
  the ASCII part of JavaScript's white space and line terminators.
\<close>

definition is_digit :: "char \<Rightarrow> bool" where
  "is_digit c = (c \<in> set ''0123456789'')"

definition digit_val :: "char \<Rightarrow> nat" where
  "digit_val c = of_char c - 48"

definition digits_val :: "string \<Rightarrow> nat" where
  "digits_val s = foldl (\<lambda>n c. 10 * n + digit_val c) 0 s"

definition is_space :: "char \<Rightarrow> bool" where
  "is_space c = ((of_char c :: nat) \<in> {9, 10, 11, 12, 13, 32})"

definition trim_start :: "string \<Rightarrow> string" where
  "trim_start s = dropWhile is_space s"

definition trim :: "string \<Rightarrow> string" where
  "trim s = rev (dropWhile is_space (rev (dropWhile is_space s)))"

fun scan_sign :: "string \<Rightarrow> bool \<times> string" where
  "scan_sign [] = (False, [])"
| "scan_sign (c # s) =
     (if c = CHR ''-'' then (True, s) else if c = CHR ''+'' then (False, s) else (False, c # s))"

text \<open>
  \<open>ExponentPart\<close>: \<open>e\<close> or \<open>E\<close>, an optional sign, at least one digit. Without a digit the
  exponent is not part of the literal, and nothing is consumed.
\<close>

fun scan_exponent :: "string \<Rightarrow> int \<times> string" where
  "scan_exponent [] = (0, [])"
| "scan_exponent (c # s) =
     (if c = CHR ''e'' \<or> c = CHR ''E'' then
        (case scan_sign s of (neg, t) \<Rightarrow>
           (let ds = takeWhile is_digit t
            in if ds = [] then (0, c # s)
               else ((if neg then - int (digits_val ds) else int (digits_val ds)),
                     dropWhile is_digit t)))
      else (0, c # s))"

text \<open>
  \<open>StrUnsignedDecimalLiteral\<close> without \<open>Infinity\<close>: the longest prefix of the forms
  \<open>digits\<close>, \<open>digits.\<close>, \<open>digits.digits\<close>, \<open>.digits\<close>, each with an optional exponent. The
  result is the exact value of the literal and the text after it.
\<close>

definition scan_unsigned_decimal :: "string \<Rightarrow> (rat \<times> string) option" where
  "scan_unsigned_decimal s =
     (let ip = takeWhile is_digit s; s2 = dropWhile is_digit s;
          dot = (case s2 of
                   [] \<Rightarrow> False
                 | c # t \<Rightarrow> c = CHR ''.'' \<and> (ip \<noteq> [] \<or> (case t of [] \<Rightarrow> False | d # _ \<Rightarrow> is_digit d)));
          fp = (if dot then takeWhile is_digit (tl s2) else []);
          s3 = (if dot then dropWhile is_digit (tl s2) else s2)
      in if ip = [] \<and> fp = [] then None
         else (case scan_exponent s3 of (e, s4) \<Rightarrow>
                 Some (of_nat (digits_val (ip @ fp)) / 10 ^ length fp * 10 powi e, s4)))"

text \<open>\<open>StrDecimalLiteral\<close>: an optional sign, then \<open>Infinity\<close> or an unsigned literal.\<close>

definition scan_decimal_literal :: "string \<Rightarrow> (number \<times> string) option" where
  "scan_decimal_literal s =
     (case scan_sign s of (neg, t) \<Rightarrow>
        if take 8 t = ''Infinity'' then Some (if neg then NegInf else PosInf, drop 8 t)
        else (case scan_unsigned_decimal t of
                None \<Rightarrow> None
              | Some (v, rest) \<Rightarrow> Some (round_double (if neg then - v else v), rest)))"

text \<open>
  \<open>parseFloat\<close> on a string: skip leading white space, read the longest prefix that is a
  decimal literal and ignore what follows; NaN when there is no such prefix.
\<close>

definition parseFloat :: "string \<Rightarrow> number" where
  "parseFloat s =
     (case scan_decimal_literal (trim_start s) of None \<Rightarrow> NaN | Some (x, _) \<Rightarrow> x)"

text \<open>
  \<open>ToNumber\<close> on a string, for decimal text: white space is trimmed on both sides, the
  empty string is \<open>0\<close>, and the literal must cover the whole string. (The prefixed forms
  \<open>0x\<close>, \<open>0o\<close>, \<open>0b\<close> do not occur where the handlers convert a string: the text
  there starts with a day of the month.)
\<close>

definition string_to_number :: "string \<Rightarrow> number" where
  "string_to_number s =
     (let t = trim s
      in if t = [] then Fin 0
         else (case scan_decimal_literal t of Some (x, []) \<Rightarrow> x | _ \<Rightarrow> NaN))"

text \<open>Decimal text of a natural number and of an integer, as template literals print them.\<close>

fun show_nat :: "nat \<Rightarrow> string" where
  "show_nat n =
     (if n < 10 then [char_of (48 + n)] else show_nat (n div 10) @ [char_of (48 + n mod 10)])"

definition show_int :: "int \<Rightarrow> string" where
  "show_int i = (if i < 0 then CHR ''-'' # show_nat (nat (- i)) else show_nat (nat i))"

definition to_upper_char :: "char \<Rightarrow> char" where
  "to_upper_char c =
     (let n = (of_char c :: nat) in if 97 \<le> n \<and> n \<le> 122 then char_of (n - 32) else c)"

text \<open>\<open>s.split(sep)\<close> for a one-character separator.\<close>

fun split_on :: "char \<Rightarrow> string \<Rightarrow> string list" where
  "split_on sep [] = [[]]"
| "split_on sep (c # s) =
     (if c = sep then [] # split_on sep s
      else (case split_on sep s of [] \<Rightarrow> [[c]] | p # ps \<Rightarrow> (c # p) # ps))"

section \<open>Values read from JSON\<close>

text \<open>
  The primitive values: the fields processAlert reads from the alert, from database rows
  and from the exchange's answer are taken to be primitive, or absent. The fields of a
  webhook request are any JSON values, see \<open>json_value\<close> below.
\<close>

datatype jsval = Undefined | Null | Bool bool | Num number | Str string

fun truthy :: "jsval \<Rightarrow> bool" where
  "truthy Undefined = False"
| "truthy Null = False"
| "truthy (Bool b) = b"
| "truthy (Num NaN) = False"
| "truthy (Num (Fin r)) = (r \<noteq> 0)"
| "truthy (Num _) = True"
| "truthy (Str s) = (s \<noteq> [])"

text \<open>\<open>a || b\<close> and \<open>a ?? b\<close>.\<close>

definition js_or :: "jsval \<Rightarrow> jsval \<Rightarrow> jsval" where
  "js_or a b = (if truthy a then a else b)"

definition js_nullish :: "jsval \<Rightarrow> jsval \<Rightarrow> jsval" where
  "js_nullish a b = (if a = Undefined \<or> a = Null then b else a)"

text \<open>
  The values a \<open>try\<close> block can throw. The handlers answer a caught error with its
  \<open>message\<close>; the model keeps the error itself in the response.
\<close>

datatype error =
    TypeError
  | RangeError
  | SyntaxError
  | Error string
  | InstrumentsInfoError jsval

text \<open>
  \<open>parseFloat\<close> converts its argument to a string first. A number prints to text that
  reads back as the same number; \<open>undefined\<close>, \<open>null\<close>, \<open>true\<close> and \<open>false\<close> print as
  words, which are not numeric.
\<close>

fun parseFloat_val :: "jsval \<Rightarrow> number" where
  "parseFloat_val (Str s) = parseFloat s"
| "parseFloat_val (Num x) = x"
| "parseFloat_val _ = NaN"

text \<open>
  \<open>x.toFixed(f)\<close> throws a RangeError unless \<open>0 \<le> f \<le> 100\<close>. For a finite \<open>x\<close> below
  \<open>10\<^sup>2\<^sup>1\<close> in magnitude it prints the integer \<open>n\<close> for which \<open>n / 10\<^sup>f\<close> is closest to
  \<open>\<bar>x\<bar>\<close> (the larger one of two) with \<open>f\<close> decimals, after a minus sign for negative
  \<open>x\<close>; otherwise it prints as \<open>String(x)\<close> does. The model keeps \<open>n\<close> and \<open>f\<close> in place
  of the characters.
\<close>

datatype numeric_text =
    Decimal_Text bool nat nat
  | Number_Text number

definition toFixed :: "number \<Rightarrow> nat \<Rightarrow> error + numeric_text" where
  "toFixed x f =
     (if 100 < f then Inl RangeError
      else (case x of
              Fin r \<Rightarrow>
                if 10 ^ 21 \<le> \<bar>r\<bar> then Inr (Number_Text x)
                else Inr (Decimal_Text (r < 0) (nat \<lfloor>\<bar>r\<bar> * 10 ^ f + 1 / 2\<rfloor>) f)
            | _ \<Rightarrow> Inr (Number_Text x)))"

text \<open>\<open>parseFloat\<close> of such text: the double nearest to the decimal, or the number itself.\<close>

fun parseFloat_text :: "numeric_text \<Rightarrow> number" where
  "parseFloat_text (Decimal_Text neg n f) =
     round_double ((if neg then - 1 else 1) * of_nat n / 10 ^ f)"
| "parseFloat_text (Number_Text x) = x"


section \<open>Arrays, objects and their text\<close>

text \<open>
  \<open>Number::toString\<close> in radix 10. For a positive double \<open>x\<close>, \<open>n\<close>, \<open>k\<close> and \<open>s\<close> are
  integers with \<open>10\<^sup>k\<^sup>-\<^sup>1 \<le> s < 10\<^sup>k\<close> such that \<open>s \<times> 10\<^sup>n\<^sup>-\<^sup>k\<close> reads back as \<open>x\<close>, with \<open>k\<close> as
  small as possible, and of two such \<open>s\<close> the one for which \<open>s \<times> 10\<^sup>n\<^sup>-\<^sup>k\<close> is closer to \<open>x\<close>
  (the even one when both are as close). Seventeen digits always suffice.
\<close>

text \<open>\<open>decimal_exponent x\<close> is the \<open>n\<close> with \<open>10\<^sup>n\<^sup>-\<^sup>1 \<le> x < 10\<^sup>n\<close>, for positive \<open>x\<close>.\<close>

definition decimal_exponent :: "rat \<Rightarrow> int" where
  "decimal_exponent x =
     (case quotient_of x of (p, q) \<Rightarrow>
        (let n = int (length (show_nat (nat p))) - int (length (show_nat (nat q)))
         in if x < 10 powi n then n else n + 1))"

definition reads_back :: "rat \<Rightarrow> nat \<Rightarrow> nat \<times> int \<Rightarrow> bool" where
  "reads_back x k c = (round_double (of_nat (fst c) * 10 powi (snd c - int k)) = Fin x)"

text \<open>
  The candidates \<open>(s, n)\<close> with \<open>k\<close> digits: the two \<open>k\<close>-digit decimals around \<open>x\<close> (the
  upper one may be the next power of ten), those that read back as \<open>x\<close>.
\<close>

definition digit_candidates :: "rat \<Rightarrow> nat \<Rightarrow> (nat \<times> int) list" where
  "digit_candidates x k =
     (let n = decimal_exponent x; lo = nat \<lfloor>x / 10 powi (n - int k)\<rfloor>
      in filter (reads_back x k)
           [(lo, n), (if lo + 1 = 10 ^ k then (10 ^ (k - 1), n + 1) else (lo + 1, n))])"

definition distance :: "rat \<Rightarrow> nat \<Rightarrow> nat \<times> int \<Rightarrow> rat" where
  "distance x k c = \<bar>of_nat (fst c) * 10 powi (snd c - int k) - x\<bar>"

text \<open>\<open>shortest_digits tries k x\<close> is \<open>(s, n, k)\<close>, looking at \<open>tries\<close> lengths from \<open>k\<close> on.\<close>

fun shortest_digits :: "nat \<Rightarrow> nat \<Rightarrow> rat \<Rightarrow> nat \<times> int \<times> nat" where
  "shortest_digits 0 k x =
     (nat \<lfloor>x / 10 powi (decimal_exponent x - int k)\<rfloor>, decimal_exponent x, k)"
| "shortest_digits (Suc tries) k x =
     (case digit_candidates x k of
        [] \<Rightarrow> shortest_digits tries (Suc k) x
      | [c] \<Rightarrow> (fst c, snd c, k)
      | c # c' # _ \<Rightarrow>
          if distance x k c < distance x k c' \<or> (distance x k c = distance x k c' \<and> even (fst c))
          then (fst c, snd c, k) else (fst c', snd c', k))"

definition positive_text :: "rat \<Rightarrow> string" where
  "positive_text x =
     (case shortest_digits 17 1 x of (s, n, k) \<Rightarrow>
        (let ds = show_nat s
         in if int k \<le> n \<and> n \<le> 21 then ds @ replicate (nat (n - int k)) CHR ''0''
            else if 0 < n \<and> n \<le> 21 then take (nat n) ds @ ''.'' @ drop (nat n) ds
            else if - 6 < n \<and> n \<le> 0 then ''0.'' @ replicate (nat (- n)) CHR ''0'' @ ds
            else (let e = show_nat (nat \<bar>n - 1\<bar>);
                      sign = (if n - 1 < 0 then ''-'' else ''+'')
                  in if k = 1 then ds @ ''e'' @ sign @ e
                     else take 1 ds @ ''.'' @ drop 1 ds @ ''e'' @ sign @ e)))"

fun number_text :: "number \<Rightarrow> string" where
  "number_text NaN = ''NaN''"
| "number_text PosInf = ''Infinity''"
| "number_text NegInf = ''-Infinity''"
| "number_text (Fin r) =
     (if r = 0 then ''0'' else if r < 0 then CHR ''-'' # positive_text (- r) else positive_text r)"

text \<open>\<open>ToString\<close> on a primitive value.\<close>

fun primitive_text :: "jsval \<Rightarrow> string" where
  "primitive_text Undefined = ''undefined''"
| "primitive_text Null = ''null''"
| "primitive_text (Bool b) = (if b then ''true'' else ''false'')"
| "primitive_text (Num x) = number_text x"
| "primitive_text (Str s) = s"

text \<open>
  What reading a property of a parsed JSON document yields: a primitive value
  (\<open>Undefined\<close> when the property is absent), an array, or an object with its own
  properties in order.
\<close>

datatype json_value =
    Primitive jsval
  | Array "json_value list"
  | Object "(string \<times> json_value) list"

fun truthy_value :: "json_value \<Rightarrow> bool" where
  "truthy_value (Primitive v) = truthy v"
| "truthy_value _ = True"

definition has_own :: "string \<Rightarrow> (string \<times> 'a) list \<Rightarrow> bool" where
  "has_own key props = list_ex (\<lambda>kv. fst kv = key) props"

text \<open>The first error of a list of results, or all their values.\<close>

fun collect :: "(error + 'a) list \<Rightarrow> error + 'a list" where
  "collect [] = Inr []"
| "collect (Inl e # rs) = Inl e"
| "collect (Inr x # rs) = (case collect rs of Inl e \<Rightarrow> Inl e | Inr xs \<Rightarrow> Inr (x # xs))"

fun join_texts :: "string list \<Rightarrow> string" where
  "join_texts [] = []"
| "join_texts [s] = s"
| "join_texts (s # t # ss) = s @ '','' @ join_texts (t # ss)"

text \<open>
  \<open>ToString\<close>, as a template literal applies it. An array prints as its elements joined
  by commas, \<open>undefined\<close> and \<open>null\<close> elements as nothing. An object parsed from JSON
  has no callable property of its own: with an own property \<open>toString\<close> the inherited
  method is hidden, \<open>valueOf\<close> yields no primitive either, and the conversion throws a
  TypeError; without one it prints as \<open>[object Object]\<close>.
\<close>

fun ToString :: "json_value \<Rightarrow> error + string" where
  "ToString (Primitive v) = Inr (primitive_text v)"
| "ToString (Array xs) =
     (case collect (map (\<lambda>x. if x = Primitive Undefined \<or> x = Primitive Null then Inr []
                              else ToString x) xs) of
        Inl e \<Rightarrow> Inl e
      | Inr ss \<Rightarrow> Inr (join_texts ss))"
| "ToString (Object props) =
     (if has_own ''toString'' props then Inl TypeError else Inr ''[object Object]'')"

definition stringifies :: "json_value \<Rightarrow> bool" where
  "stringifies v = (case ToString v of Inl _ \<Rightarrow> False | Inr _ \<Rightarrow> True)"

text \<open>
  \<open>ToPrimitive\<close> without a preferred type, as \<open>+\<close> applies it to an operand: a primitive
  is itself; for an array or an object \<open>valueOf\<close> yields no primitive, so the result
  is the string that \<open>toString\<close> gives, or its TypeError.
\<close>

fun ToPrimitive :: "json_value \<Rightarrow> error + jsval" where
  "ToPrimitive (Primitive v) = Inr v"
| "ToPrimitive v = (case ToString v of Inl e \<Rightarrow> Inl e | Inr s \<Rightarrow> Inr (Str s))"

section \<open>Quantity normalization (processAlert, MIN QTY FETCH and ROUND)\<close>

text \<open>
  \<open>decimals = stepStr.includes('.') ? stepStr.split('.')[1].length : 0\<close>. Only a string
  has \<open>includes\<close> and \<open>split\<close>; on any other scalar the call throws a TypeError.
\<close>

fun decimals_of :: "jsval \<Rightarrow> error + nat" where
  "decimals_of (Str s) =
     (if CHR ''.'' \<in> set s
      then (case split_on CHR ''.'' s of _ # p # _ \<Rightarrow> Inr (length p) | _ \<Rightarrow> Inl TypeError)
      else Inr 0)"
| "decimals_of _ = Inl TypeError"

text \<open>
  \<^verbatim>\<open>
  let qty = rawQty < minQty ? minQty : Math.floor(rawQty / step) * step;
  if (qty < minQty) qty = minQty;
  const adjustedQty = parseFloat(qty.toFixed(decimals));
  \<close>
\<close>

definition adjust_quantity :: "number \<Rightarrow> number \<Rightarrow> nat \<Rightarrow> number \<Rightarrow> error + number" where
  "adjust_quantity minQty step decimals rawQty =
     (let qty = (if js_lt rawQty minQty then minQty
                 else js_mul (js_floor (js_div rawQty step)) step);
          qty = (if js_lt qty minQty then minQty else qty)
      in case toFixed qty decimals of
           Inl e \<Rightarrow> Inl e
         | Inr text \<Rightarrow> Inr (parseFloat_text text))"

text \<open>
  The whole block, from the two strings of the lot size filter and the value passed to
  \<open>parseFloat\<close> as the raw quantity.
\<close>

definition normalize_quantity :: "jsval \<Rightarrow> jsval \<Rightarrow> jsval \<Rightarrow> error + number" where
  "normalize_quantity minQtyStr stepStr rawVal =
     (let minQty = parseFloat_val minQtyStr;
          step = parseFloat_val stepStr
      in case decimals_of stepStr of
           Inl e \<Rightarrow> Inl e
         | Inr decimals \<Rightarrow> adjust_quantity minQty step decimals (parseFloat_val rawVal))"

section \<open>Dates\<close>

text \<open>
  A time value is a number of milliseconds since the epoch; an invalid date (time value
  NaN) is \<open>None\<close>. The functions below are those of the ECMAScript specification of
  \<open>Date\<close>, on integers. The specification computes in doubles, which is exact up to
  \<open>2\<^sup>5\<^sup>3\<close>; a result beyond the range that \<open>TimeClip\<close> accepts is invalid whether it
  was rounded or not.
\<close>

definition msPerDay :: int where
  "msPerDay = 86400000"

definition Day :: "int \<Rightarrow> int" where
  "Day t = t div msPerDay"

definition TimeWithinDay :: "int \<Rightarrow> int" where
  "TimeWithinDay t = t mod msPerDay"

definition DaysInYear :: "int \<Rightarrow> int" where
  "DaysInYear y =
     (if y mod 4 \<noteq> 0 then 365 else if y mod 100 \<noteq> 0 then 366
      else if y mod 400 \<noteq> 0 then 365 else 366)"

definition DayFromYear :: "int \<Rightarrow> int" where
  "DayFromYear y =
     365 * (y - 1970) + (y - 1969) div 4 - (y - 1901) div 100 + (y - 1601) div 400"

text \<open>
  \<open>YearFromTime t\<close> is the largest year that starts at or before \<open>t\<close>. A Gregorian year
  has 146097/400 days on average, which places the year within one of the estimate.
\<close>

definition YearFromTime :: "int \<Rightarrow> int" where
  "YearFromTime t =
     (let d = Day t; g = 1970 + (d * 400) div 146097
      in if DayFromYear (g + 1) \<le> d then g + 1
         else if DayFromYear g \<le> d then g else g - 1)"

definition InLeapYear :: "int \<Rightarrow> bool" where
  "InLeapYear t = (DaysInYear (YearFromTime t) = 366)"

definition DayWithinYear :: "int \<Rightarrow> int" where
  "DayWithinYear t = Day t - DayFromYear (YearFromTime t)"

text \<open>The day of the year on which month \<open>m\<close> (0 to 11) starts.\<close>

definition month_start :: "int \<Rightarrow> bool \<Rightarrow> int" where
  "month_start m leap =
     (let l = (if leap then 1 else 0)
      in if m = 0 then 0 else if m = 1 then 31 else if m = 2 then 59 + l
         else if m = 3 then 90 + l else if m = 4 then 120 + l else if m = 5 then 151 + l
         else if m = 6 then 181 + l else if m = 7 then 212 + l else if m = 8 then 243 + l
         else if m = 9 then 273 + l else if m = 10 then 304 + l else 334 + l)"

definition MonthFromTime :: "int \<Rightarrow> int" where
  "MonthFromTime t =
     (let d = DayWithinYear t; leap = InLeapYear t
      in if d < month_start 1 leap then 0 else if d < month_start 2 leap then 1
         else if d < month_start 3 leap then 2 else if d < month_start 4 leap then 3
         else if d < month_start 5 leap then 4 else if d < month_start 6 leap then 5
         else if d < month_start 7 leap then 6 else if d < month_start 8 leap then 7
         else if d < month_start 9 leap then 8 else if d < month_start 10 leap then 9
         else if d < month_start 11 leap then 10 else 11)"

definition DateFromTime :: "int \<Rightarrow> int" where
  "DateFromTime t = DayWithinYear t - month_start (MonthFromTime t) (InLeapYear t) + 1"

definition HourFromTime :: "int \<Rightarrow> int" where
  "HourFromTime t = (t div 3600000) mod 24"

definition MinFromTime :: "int \<Rightarrow> int" where
  "MinFromTime t = (t div 60000) mod 60"

definition SecFromTime :: "int \<Rightarrow> int" where
  "SecFromTime t = (t div 1000) mod 60"

definition msFromTime :: "int \<Rightarrow> int" where
  "msFromTime t = t mod 1000"

text \<open>
  \<open>MakeDay year month date\<close>: the day number of the first of the month, plus
  \<open>date - 1\<close>; months beyond 0 to 11 carry into the year.
\<close>

definition MakeDay :: "int \<Rightarrow> int \<Rightarrow> int \<Rightarrow> int" where
  "MakeDay year month date =
     (let ym = year + month div 12; mn = month mod 12
      in DayFromYear ym + month_start mn (DaysInYear ym = 366) + date - 1)"

definition MakeDate :: "int \<Rightarrow> int \<Rightarrow> int" where
  "MakeDate day time = day * msPerDay + time"

definition TimeClip :: "int \<Rightarrow> int option" where
  "TimeClip t = (if 8640000000000000 < \<bar>t\<bar> then None else Some t)"

text \<open>\<open>ToIntegerOrInfinity\<close> on a finite number: truncation towards zero.\<close>

definition to_integer :: "rat \<Rightarrow> int" where
  "to_integer r = (if 0 \<le> r then \<lfloor>r\<rfloor> else - \<lfloor>- r\<rfloor>)"

text \<open>
  \<open>getDate\<close> and \<open>setDate\<close> work in the local time of the host. Its time zone is given
  by the offset from UTC in milliseconds, \<open>LocalTZA\<close>: \<open>tza t True\<close> is the offset in
  effect at the UTC time \<open>t\<close>, and \<open>tza t False\<close> the offset in effect at the local time
  \<open>t\<close>. On a host that runs in UTC both are 0; where summer time is observed the offset
  changes twice a year.
\<close>

definition LocalTime :: "(int \<Rightarrow> bool \<Rightarrow> int) \<Rightarrow> int \<Rightarrow> int" where
  "LocalTime tza t = t + tza t True"

definition UTC :: "(int \<Rightarrow> bool \<Rightarrow> int) \<Rightarrow> int \<Rightarrow> int" where
  "UTC tza t = t - tza t False"

definition getDate :: "(int \<Rightarrow> bool \<Rightarrow> int) \<Rightarrow> int \<Rightarrow> int" where
  "getDate tza t = DateFromTime (LocalTime tza t)"

definition setDate :: "(int \<Rightarrow> bool \<Rightarrow> int) \<Rightarrow> int \<Rightarrow> number \<Rightarrow> int option" where
  "setDate tza t dt =
     (case dt of
        Fin r \<Rightarrow>
          (let lt = LocalTime tza t;
               newDate = MakeDate (MakeDay (YearFromTime lt) (MonthFromTime lt) (to_integer r))
                                  (TimeWithinDay lt)
           in TimeClip (UTC tza newDate))
      | _ \<Rightarrow> None)"

text \<open>\<open>toISOString\<close>: \<open>YYYY-MM-DDTHH:mm:ss.sssZ\<close>, with a signed six-digit year outside 0 to 9999.\<close>

definition pad :: "nat \<Rightarrow> int \<Rightarrow> string" where
  "pad width n = (let s = show_nat (nat n) in replicate (width - length s) CHR ''0'' @ s)"

definition year_text :: "int \<Rightarrow> string" where
  "year_text y =
     (if 0 \<le> y \<and> y \<le> 9999 then pad 4 y
      else if y < 0 then CHR ''-'' # pad 6 (- y) else CHR ''+'' # pad 6 y)"

definition toISOString :: "int \<Rightarrow> string" where
  "toISOString t =
     year_text (YearFromTime t) @ ''-'' @ pad 2 (MonthFromTime t + 1) @ ''-''
     @ pad 2 (DateFromTime t) @ ''T'' @ pad 2 (HourFromTime t) @ '':''
     @ pad 2 (MinFromTime t) @ '':'' @ pad 2 (SecFromTime t) @ ''.''
     @ pad 3 (msFromTime t) @ ''Z''"

section \<open>Requests, responses and the outside world\<close>

text \<open>
  \<open>request.json()\<close> rejects when the body is not JSON (an empty body included). The JSON
  value \<open>null\<close> is kept apart, since reading a property of it throws; any other JSON
  value is given by the fields the handler reads, absent ones being \<open>Undefined\<close>.
\<close>

datatype 'a json_body = Unparseable | Json_Null | Json_Fields 'a

text \<open>The request: its HTTP verb (\<open>request.method\<close>), the parts of its URL, and what \<open>request.json()\<close> yields.\<close>

record 'a request =
  http_method :: string
  protocol :: string
  host :: string
  pathname :: string
  json :: "'a json_body"

record alert =
  alert_symbol :: jsval
  alert_side :: jsval
  alert_orderType :: jsval
  alert_quantity :: jsval
  alert_price :: jsval
  alert_stopLoss :: jsval
  alert_takeProfit :: jsval

record webhook_request =
  userId :: json_value
  botId :: json_value
  expirationDays :: json_value

text \<open>Rows of the tables \<open>bots\<close>, \<open>webhooks\<close> and \<open>api_keys\<close>, with the columns the handlers read.\<close>

record bot =
  bot_symbol :: jsval
  default_side :: jsval
  default_order_type :: jsval
  default_quantity :: jsval
  default_stop_loss :: jsval
  default_take_profit :: jsval
  test_mode :: jsval
  trade_count :: jsval

text \<open>
  A \<open>webhooks\<close> row as \<open>select('*, bots(*)')\<close> returns it: \<open>bots\<close> is the row its
  \<open>bot_id\<close> refers to, \<open>None\<close> for \<open>null\<close>. \<open>expires_at\<close> is an instant, in milliseconds.
\<close>

record webhook_row =
  webhook_token :: string
  user_id :: jsval
  bot_id :: jsval
  expires_at :: int
  bots :: "bot option"

record api_key_row =
  key_user_id :: jsval
  exchange :: string
  api_key :: jsval
  api_secret :: jsval

text \<open>The exchange's answer to the instruments-info query.\<close>

record lot_size_filter =
  minOrderQty :: jsval
  minTrdAmt :: jsval
  qtyStep :: jsval
  stepSize :: jsval

text \<open>
  \<open>lotSizeFilter\<close> stands for \<open>infoJson.result.list[0].lotSizeFilter\<close>: \<open>None\<close> when a
  property on that path is missing, so that reading the filter's fields throws a TypeError.
\<close>

record info_json =
  retCode :: jsval
  retMsg :: jsval
  lotSizeFilter :: "lot_size_filter option"

datatype info_response =
    Info_Rejects error
  | Info_Null
  | Info info_json

record order_params =
  apiKey :: jsval
  apiSecret :: jsval
  symbol :: string
  side :: jsval
  orderType :: jsval
  quantity :: number
  price :: jsval
  stopLoss :: jsval
  takeProfit :: jsval
  testnet :: jsval

record order_result =
  orderId :: jsval
  result_symbol :: jsval
  result_side :: jsval
  result_orderType :: jsval
  qty :: jsval
  result_price :: jsval
  status :: jsval

text \<open>
  What \<open>await executeBybitOrder(orderParams)\<close> does: it throws, or it yields a value,
  \<open>None\<close> standing for \<open>undefined\<close> and \<open>null\<close>.
\<close>

datatype order_outcome =
    Order_Rejects error
  | Order_Resolves "order_result option"

record trade_row =
  trade_user_id :: jsval
  trade_bot_id :: jsval
  trade_symbol :: jsval
  trade_side :: jsval
  trade_order_type :: jsval
  trade_quantity :: jsval
  trade_price :: jsval
  trade_order_id :: jsval
  trade_status :: jsval
  trade_created_at :: string

record bot_update =
  last_trade_at :: string
  new_trade_count :: jsval

record webhook_insert =
  ins_user_id :: json_value
  ins_bot_id :: json_value
  ins_webhook_token :: string
  ins_expires_at :: string
  ins_created_at :: string

text \<open>
  What a handler does to the outside, in order: database reads, the query to the
  exchange, the order call, database writes. Console output is left out, except the two
  messages that report a failed write of the trade log, which are all that such a failure
  leaves behind.
\<close>

datatype effect =
    Select_Webhook string string
  | Select_Api_Key jsval
  | Fetch_Instruments_Info string
  | Execute_Order order_params
  | Insert_Trade trade_row
  | Update_Bot jsval bot_update
  | Insert_Webhook webhook_insert
  | Console_Error string

fun is_order_call :: "effect \<Rightarrow> bool" where
  "is_order_call (Execute_Order _) = True"
| "is_order_call _ = False"

fun is_write :: "effect \<Rightarrow> bool" where
  "is_write (Insert_Trade _) = True"
| "is_write (Update_Bot _ _) = True"
| "is_write (Insert_Webhook _) = True"
| "is_write _ = False"

text \<open>A list of effects without side effects: no order call, no database write.\<close>

definition no_side_effects :: "effect list \<Rightarrow> bool" where
  "no_side_effects es = list_all (\<lambda>e. \<not> is_write e \<and> \<not> is_order_call e) es"

datatype body =
    No_Body
  | Error_Body string
  | Thrown_Body error
  | Alert_Body jsval jsval jsval
  | Webhook_Body string string

text \<open>
  \<open>Alert_Body orderId status testMode\<close> is \<open>{success: true, orderId, status, testMode}\<close>;
  \<open>Webhook_Body webhookUrl expiresAt\<close> is \<open>{webhookUrl, expiresAt}\<close>; \<open>Thrown_Body e\<close> is
  \<open>{error: e.message}\<close>. Every response carries the same CORS headers, which the model
  leaves out.
\<close>

record response =
  http_status :: nat
  body :: body

text \<open>The \<open>orderId\<close> of a response, \<open>Undefined\<close> when its body has none.\<close>

definition response_order_id :: "response \<Rightarrow> jsval" where
  "response_order_id r = (case body r of Alert_Body oid _ _ \<Rightarrow> oid | _ \<Rightarrow> Undefined)"

text \<open>
  Everything a handler reads from outside the request. \<open>clock w k\<close> is the \<open>k\<close>-th
  reading of the system clock during the invocation (\<open>new Date()\<close>, \<open>Date.now()\<close>), and
  \<open>LocalTZA\<close> the time zone of the host. A database call reports an error when its flag
  is set. \<open>TESTNET_URL\<close>, \<open>MAINNET_URL\<close> and \<open>executeBybitOrder\<close> are imported from
  \<open>utils/bybit.edge.mjs\<close> and \<open>nanoid\<close> from its package; they are parameters here.
\<close>

record world =
  SUPABASE_URL :: "string option"
  SUPABASE_SERVICE_KEY :: "string option"
  clock :: "nat \<Rightarrow> int"
  LocalTZA :: "int \<Rightarrow> bool \<Rightarrow> int"
  webhooks :: "webhook_row list"
  webhooks_select_error :: bool
  api_keys :: "api_key_row list"
  api_keys_select_error :: bool
  TESTNET_URL :: string
  MAINNET_URL :: string
  instruments_info :: "string \<Rightarrow> info_response"
  executeBybitOrder :: "order_params \<Rightarrow> order_outcome"
  trades_insert_error :: bool
  bots_update_error :: bool
  nanoid :: "nat \<Rightarrow> string"
  webhooks_insert_error :: "string option"

text \<open>\<open>!supabaseUrl || !supabaseServiceKey\<close>: an unset variable and the empty string are falsy.\<close>

definition env_missing :: "world \<Rightarrow> bool" where
  "env_missing w =
     (SUPABASE_URL w = None \<or> SUPABASE_URL w = Some []
      \<or> SUPABASE_SERVICE_KEY w = None \<or> SUPABASE_SERVICE_KEY w = Some [])"

text \<open>
  \<open>.single()\<close> yields the row when the filters leave exactly one, and an error
  otherwise. SQL equality does not match NULL.
\<close>

fun single :: "'a list \<Rightarrow> 'a option" where
  "single [r] = Some r"
| "single _ = None"

definition select_webhook :: "world \<Rightarrow> string \<Rightarrow> int \<Rightarrow> webhook_row option" where
  "select_webhook w token now =
     (if webhooks_select_error w then None
      else single (filter (\<lambda>r. webhook_token r = token \<and> now < expires_at r) (webhooks w)))"

definition select_api_key :: "world \<Rightarrow> jsval \<Rightarrow> api_key_row option" where
  "select_api_key w uid =
     (if api_keys_select_error w then None
      else single (filter (\<lambda>k. uid \<noteq> Null \<and> key_user_id k = uid \<and> exchange k = ''bybit'')
                          (api_keys w)))"

section \<open>processAlert\<close>

text \<open>\<open>parts[parts.length - 1]\<close> of \<open>url.pathname.split('/')\<close>.\<close>

definition webhook_token_of :: "string \<Rightarrow> string" where
  "webhook_token_of path = last (split_on CHR ''/'' path)"

definition empty_alert :: alert where
  "empty_alert = \<lparr>alert_symbol = Undefined, alert_side = Undefined,
     alert_orderType = Undefined, alert_quantity = Undefined, alert_price = Undefined,
     alert_stopLoss = Undefined, alert_takeProfit = Undefined\<rparr>"

text \<open>
  \<^verbatim>\<open>
  let alertData = {};
  try { alertData = await request.json(); } catch (e) { ... }
  \<close>
\<close>

definition alert_data :: "alert json_body \<Rightarrow> alert json_body" where
  "alert_data j = (case j of Unparseable \<Rightarrow> Json_Fields empty_alert | _ \<Rightarrow> j)"

text \<open>
  \<open>(alertData.symbol || bot.symbol || '').toUpperCase()\<close>: only a string has
  \<open>toUpperCase\<close>.
\<close>

definition order_symbol :: "alert \<Rightarrow> bot \<Rightarrow> error + string" where
  "order_symbol a b =
     (case js_or (js_or (alert_symbol a) (bot_symbol b)) (Str []) of
        Str s \<Rightarrow> Inr (map to_upper_char s)
      | _ \<Rightarrow> Inl TypeError)"

definition instruments_info_url :: "string \<Rightarrow> string \<Rightarrow> string" where
  "instruments_info_url baseUrl sy =
     baseUrl @ ''/v5/market/instruments-info?symbol='' @ sy @ ''&category=linear''"

text \<open>
  \<^verbatim>\<open>
  const infoJson = await infoRes.json();
  if (infoJson.retCode !== 0) throw new Error(`InstrumentsInfo error: ${infoJson.retMsg}`);
  const inst = infoJson.result.list[0];
  const lotFilter = inst.lotSizeFilter;
  \<close>
\<close>

definition lot_filter :: "info_response \<Rightarrow> error + lot_size_filter" where
  "lot_filter r =
     (case r of
        Info_Rejects e \<Rightarrow> Inl e
      | Info_Null \<Rightarrow> Inl TypeError
      | Info j \<Rightarrow>
          if retCode j \<noteq> Num (Fin 0) then Inl (InstrumentsInfoError (retMsg j))
          else (case lotSizeFilter j of None \<Rightarrow> Inl TypeError | Some f \<Rightarrow> Inr f))"

definition adjusted_quantity :: "lot_size_filter \<Rightarrow> alert \<Rightarrow> bot \<Rightarrow> error + number" where
  "adjusted_quantity f a b =
     normalize_quantity (js_nullish (minOrderQty f) (minTrdAmt f))
       (js_nullish (qtyStep f) (stepSize f))
       (js_nullish (alert_quantity a) (js_nullish (default_quantity b) (Num (Fin 0))))"

definition build_order_params ::
  "api_key_row \<Rightarrow> string \<Rightarrow> alert \<Rightarrow> bot \<Rightarrow> number \<Rightarrow> order_params" where
  "build_order_params k sy a b adjustedQty =
     \<lparr>apiKey = api_key k,
      apiSecret = api_secret k,
      symbol = sy,
      side = js_or (js_or (alert_side a) (default_side b)) (Str ''Buy''),
      orderType = js_or (js_or (alert_orderType a) (default_order_type b)) (Str ''Market''),
      quantity = adjustedQty,
      price = alert_price a,
      stopLoss = js_or (alert_stopLoss a) (default_stop_loss b),
      takeProfit = js_or (alert_takeProfit a) (default_take_profit b),
      testnet = test_mode b\<rparr>"

text \<open>
  Lines 127 to 167, after the webhook and the API key have been found: the order
  parameters, or the error thrown on the way, with the query sent to the exchange.
\<close>

definition prepare_order ::
  "world \<Rightarrow> webhook_row \<Rightarrow> api_key_row \<Rightarrow> alert json_body
     \<Rightarrow> (error + bot \<times> order_params) \<times> effect list" where
  "prepare_order w webhook k j =
     (case (j, bots webhook) of
        (Json_Fields a, Some b) \<Rightarrow>
          (case order_symbol a b of
             Inl e \<Rightarrow> (Inl e, [])
           | Inr sy \<Rightarrow>
               (let baseUrl = (if truthy (test_mode b) then TESTNET_URL w else MAINNET_URL w);
                    url = instruments_info_url baseUrl sy;
                    fetched = [Fetch_Instruments_Info url]
                in case lot_filter (instruments_info w url) of
                     Inl e \<Rightarrow> (Inl e, fetched)
                   | Inr f \<Rightarrow>
                       (case adjusted_quantity f a b of
                          Inl e \<Rightarrow> (Inl e, fetched)
                        | Inr adjustedQty \<Rightarrow>
                            (Inr (b, build_order_params k sy a b adjustedQty), fetched))))
      | _ \<Rightarrow> (Inl TypeError, []))"

text \<open>
  The dispatch. In test mode the order is made up, with \<open>Date.now()\<close> in its identifier;
  otherwise \<open>executeBybitOrder\<close> is called. \<open>n\<close> is the number of clock readings made
  so far; the result comes with the number made after the dispatch.
\<close>

definition test_order :: "order_params \<Rightarrow> int \<Rightarrow> order_result" where
  "test_order p now =
     \<lparr>orderId = Str (''test-'' @ show_int now),
      result_symbol = Str (symbol p),
      result_side = side p,
      result_orderType = orderType p,
      qty = Num (quantity p),
      result_price = js_or (price p) (Num (Fin 0)),
      status = Str ''TEST_ORDER''\<rparr>"

definition dispatch ::
  "world \<Rightarrow> bot \<Rightarrow> order_params \<Rightarrow> nat \<Rightarrow> (error + order_result \<times> nat) \<times> effect list" where
  "dispatch w b p n =
     (if truthy (test_mode b) then (Inr (test_order p (clock w n), Suc n), [])
      else (case executeBybitOrder w p of
              Order_Rejects e \<Rightarrow> (Inl e, [Execute_Order p])
            | Order_Resolves None \<Rightarrow> (Inl TypeError, [Execute_Order p])
            | Order_Resolves (Some r) \<Rightarrow> (Inr (r, n), [Execute_Order p])))"

text \<open>\<open>bot.trade_count ? bot.trade_count + 1 : 1\<close>.\<close>

definition next_trade_count :: "jsval \<Rightarrow> jsval" where
  "next_trade_count c =
     (if truthy c
      then (case c of
              Num x \<Rightarrow> Num (js_add x (Fin 1))
            | Str s \<Rightarrow> Str (s @ ''1'')
            | _ \<Rightarrow> Num (Fin 2))
      else Num (Fin 1))"

text \<open>
  The trade row and the bot update are sent whatever the dispatch returned. An error
  reported by either call is written to the console and has no other consequence.
\<close>

definition log_trade ::
  "world \<Rightarrow> webhook_row \<Rightarrow> bot \<Rightarrow> order_result \<Rightarrow> nat \<Rightarrow> effect list" where
  "log_trade w webhook b r n =
     [Insert_Trade
        \<lparr>trade_user_id = user_id webhook,
         trade_bot_id = bot_id webhook,
         trade_symbol = result_symbol r,
         trade_side = result_side r,
         trade_order_type = result_orderType r,
         trade_quantity = qty r,
         trade_price = result_price r,
         trade_order_id = orderId r,
         trade_status = status r,
         trade_created_at = toISOString (clock w n)\<rparr>]
     @ (if trades_insert_error w then [Console_Error ''Error logging trade:''] else [])
     @ [Update_Bot (bot_id webhook)
          \<lparr>last_trade_at = toISOString (clock w (Suc n)),
           new_trade_count = next_trade_count (trade_count b)\<rparr>]
     @ (if bots_update_error w then [Console_Error ''Error updating bot:''] else [])"

text \<open>
  The handler up to the point where the order parameters are ready (lines 12 to 172): the
  response that ends the request early, or the webhook row, the bot and the parameters to
  dispatch with. An error thrown in the \<open>try\<close> block is answered by its \<open>catch\<close>.
\<close>

definition receive ::
  "world \<Rightarrow> alert request
     \<Rightarrow> (response + webhook_row \<times> bot \<times> order_params) \<times> effect list" where
  "receive w req =
     (if http_method req = ''OPTIONS'' then (Inl \<lparr>http_status = 204, body = No_Body\<rparr>, [])
      else if http_method req \<noteq> ''POST''
        then (Inl \<lparr>http_status = 405, body = Error_Body ''Method not allowed''\<rparr>, [])
      else if env_missing w
        then (Inl \<lparr>http_status = 500, body = Error_Body ''Server configuration error''\<rparr>, [])
      else
        (let webhookToken = webhook_token_of (pathname req);
             now = clock w 0;
             e1 = [Select_Webhook webhookToken (toISOString now)]
         in case select_webhook w webhookToken now of
              None \<Rightarrow>
                (Inl \<lparr>http_status = 404, body = Error_Body ''Invalid or expired webhook''\<rparr>, e1)
            | Some webhook \<Rightarrow>
                (let alertData = alert_data (json req);
                     e2 = e1 @ [Select_Api_Key (user_id webhook)]
                 in case select_api_key w (user_id webhook) of
                      None \<Rightarrow>
                        (Inl \<lparr>http_status = 400,
                              body = Error_Body ''API credentials not found''\<rparr>, e2)
                    | Some k \<Rightarrow>
                        (case prepare_order w webhook k alertData of
                           (Inl e, e3) \<Rightarrow>
                             (Inl \<lparr>http_status = 500, body = Thrown_Body e\<rparr>, e2 @ e3)
                         | (Inr (b, p), e3) \<Rightarrow> (Inr (webhook, b, p), e2 @ e3)))))"

text \<open>The whole handler: dispatch, trade log, response.\<close>

definition processAlert :: "world \<Rightarrow> alert request \<Rightarrow> response \<times> effect list" where
  "processAlert w req =
     (case receive w req of
        (Inl early, es) \<Rightarrow> (early, es)
      | (Inr (webhook, b, p), es) \<Rightarrow>
          (case dispatch w b p 1 of
             (Inl e, e4) \<Rightarrow> (\<lparr>http_status = 500, body = Thrown_Body e\<rparr>, es @ e4)
           | (Inr (r, n), e4) \<Rightarrow>
               (\<lparr>http_status = 200,
                 body = Alert_Body (orderId r) (status r) (test_mode b)\<rparr>,
                es @ e4 @ log_trade w webhook b r n)))"

section \<open>generateWebhook\<close>

text \<open>
  \<open>expirationDate.getDate() + expirationDays\<close>, the left operand being a day of the
  month and the right one made primitive: numbers are added, \<open>null\<close> counts as 0 and a
  boolean as 0 or 1, and a string is appended to the digits of the day.
\<close>

fun day_plus :: "int \<Rightarrow> jsval \<Rightarrow> jsval" where
  "day_plus d (Num x) = Num (js_add (Fin (of_int d)) x)"
| "day_plus d (Str s) = Str (show_int d @ s)"
| "day_plus d (Bool b) = Num (js_add (Fin (of_int d)) (Fin (if b then 1 else 0)))"
| "day_plus d Null = Num (Fin (of_int d))"
| "day_plus d Undefined = Num NaN"

text \<open>\<open>ToNumber\<close>, applied by \<open>setDate\<close> to its argument.\<close>

fun to_number :: "jsval \<Rightarrow> number" where
  "to_number (Num x) = x"
| "to_number (Str s) = string_to_number s"
| "to_number (Bool b) = Fin (if b then 1 else 0)"
| "to_number Null = Fin 0"
| "to_number Undefined = NaN"

text \<open>
  \<open>nanoid(size)\<close> is a parameter of the model. What the package promises of a token is
  its length and its alphabet, the 64 characters below (letters, digits, \<open>_\<close> and \<open>-\<close>).
\<close>

definition urlAlphabet :: string where
  "urlAlphabet = ''useandom-26T198340PX75pxJACKVERYMINDBUSHWOLF_GQZbfghjklqvwyzrict''"

definition nanoid_token :: "nat \<Rightarrow> string \<Rightarrow> bool" where
  "nanoid_token n t = (length t = n \<and> list_all (\<lambda>c. c \<in> set urlAlphabet) t)"

definition webhook_url :: "'a request \<Rightarrow> string \<Rightarrow> string" where
  "webhook_url req webhookToken =
     protocol req @ ''//'' @ host req @ ''/.netlify/functions/processAlert/'' @ webhookToken"

text \<open>
  The log line that the handler writes after reading the body: its template literal
  converts the three fields to strings, in this order, and throws when one of them cannot
  be converted.
\<close>

definition request_log :: "json_value \<Rightarrow> json_value \<Rightarrow> json_value \<Rightarrow> error + string" where
  "request_log uid bid days =
     (case ToString uid of
        Inl e \<Rightarrow> Inl e
      | Inr u \<Rightarrow>
          (case ToString bid of
             Inl e \<Rightarrow> Inl e
           | Inr b \<Rightarrow>
               (case ToString days of
                  Inl e \<Rightarrow> Inl e
                | Inr d \<Rightarrow>
                    Inr (''Request received - userId: '' @ u @ '', botId: '' @ b
                         @ '', expirationDays: '' @ d))))"

text \<open>
  The handler. \<open>request.json()\<close> is not guarded here: an unreadable body and the body
  \<open>null\<close> throw, and so does the log line for a field without text; the \<open>catch\<close>
  answers 500. \<open>expirationDate.toISOString()\<close> is first called for the log line before
  the insert, and throws a RangeError on an invalid date. \<open>webhooks_insert_error\<close> is
  the message of the error the insert reports, if any.
\<close>

definition generateWebhook :: "world \<Rightarrow> webhook_request request \<Rightarrow> response \<times> effect list" where
  "generateWebhook w req =
     (if http_method req = ''OPTIONS'' then (\<lparr>http_status = 204, body = No_Body\<rparr>, [])
      else if http_method req \<noteq> ''POST''
        then (\<lparr>http_status = 405, body = Error_Body ''Method not allowed''\<rparr>, [])
      else if env_missing w
        then (\<lparr>http_status = 500, body = Error_Body ''Server configuration error''\<rparr>, [])
      else
        (case json req of
           Unparseable \<Rightarrow> (\<lparr>http_status = 500, body = Thrown_Body SyntaxError\<rparr>, [])
         | Json_Null \<Rightarrow> (\<lparr>http_status = 500, body = Thrown_Body TypeError\<rparr>, [])
         | Json_Fields f \<Rightarrow>
             (let days = (if expirationDays f = Primitive Undefined then Primitive (Num (Fin 30))
                          else expirationDays f)
              in case request_log (userId f) (botId f) days of
                   Inl e \<Rightarrow> (\<lparr>http_status = 500, body = Thrown_Body e\<rparr>, [])
                 | Inr _ \<Rightarrow>
                     if \<not> truthy_value (userId f) \<or> \<not> truthy_value (botId f)
                     then (\<lparr>http_status = 400, body = Error_Body ''Missing required fields''\<rparr>, [])
                     else
                       (let webhookToken = nanoid w 32;
                            created = clock w 0;
                            tza = LocalTZA w
                        in case ToPrimitive days of
                             Inl e \<Rightarrow> (\<lparr>http_status = 500, body = Thrown_Body e\<rparr>, [])
                           | Inr added \<Rightarrow>
                               (case setDate tza created
                                       (to_number (day_plus (getDate tza created) added)) of
                                  None \<Rightarrow> (\<lparr>http_status = 500, body = Thrown_Body RangeError\<rparr>, [])
                                | Some expirationDate \<Rightarrow>
                                    (let ins = [Insert_Webhook
                                           \<lparr>ins_user_id = userId f,
                                            ins_bot_id = botId f,
                                            ins_webhook_token = webhookToken,
                                            ins_expires_at = toISOString expirationDate,
                                            ins_created_at = toISOString (clock w 1)\<rparr>]
                                     in case webhooks_insert_error w of
                                          Some msg \<Rightarrow>
                                            (\<lparr>http_status = 500, body = Thrown_Body (Error msg)\<rparr>,
                                             ins)
                                        | None \<Rightarrow>
                                            (\<lparr>http_status = 200,
                                              body = Webhook_Body (webhook_url req webhookToken)
                                                       (toISOString expirationDate)\<rparr>,
                                             ins)))))))"

section \<open>An example deployment\<close>

text \<open>
  A bot in test mode with no default side and no default order type, and the same bot
  trading for real; a webhook for each and an expired one; one Bybit key for their owner;
  an exchange that reports a minimum quantity and a step of \<open>0.01\<close>. The clock starts
  on 2024-01-15 at 10:00 UTC.
\<close>

definition example_bot :: bot where
  "example_bot =
     \<lparr>bot_symbol = Str ''btcusdt'', default_side = Null, default_order_type = Str [],
      default_quantity = Null, default_stop_loss = Null, default_take_profit = Null,
      test_mode = Bool True, trade_count = Num (Fin 4)\<rparr>"

definition live_bot :: bot where
  "live_bot = example_bot\<lparr>test_mode := Bool False\<rparr>"

definition example_webhook :: webhook_row where
  "example_webhook =
     \<lparr>webhook_token = ''live-token'', user_id = Str ''user-1'', bot_id = Str ''bot-1'',
      expires_at = 1707904800000, bots = Some example_bot\<rparr>"

definition expired_webhook :: webhook_row where
  "expired_webhook =
     \<lparr>webhook_token = ''old-token'', user_id = Str ''user-1'', bot_id = Str ''bot-1'',
      expires_at = 1700000000000, bots = Some example_bot\<rparr>"

definition live_webhook :: webhook_row where
  "live_webhook =
     \<lparr>webhook_token = ''real-token'', user_id = Str ''user-1'', bot_id = Str ''bot-2'',
      expires_at = 1707904800000, bots = Some live_bot\<rparr>"

definition example_key :: api_key_row where
  "example_key =
     \<lparr>key_user_id = Str ''user-1'', exchange = ''bybit'',
      api_key = Str ''key'', api_secret = Str ''secret''\<rparr>"

definition example_filter :: lot_size_filter where
  "example_filter =
     \<lparr>minOrderQty = Str ''0.01'', minTrdAmt = Undefined,
      qtyStep = Str ''0.01'', stepSize = Undefined\<rparr>"

definition example_result :: "order_params \<Rightarrow> order_result" where
  "example_result p =
     \<lparr>orderId = Str ''1234567890'', result_symbol = Str (symbol p), result_side = side p,
      result_orderType = orderType p, qty = Num (quantity p), result_price = Num (Fin 42000),
      status = Str ''Created''\<rparr>"

definition example_world :: world where
  "example_world =
     \<lparr>SUPABASE_URL = Some ''https://project.supabase.co'',
      SUPABASE_SERVICE_KEY = Some ''service-role-key'',
      clock = (\<lambda>k. 1705312800000 + int k),
      LocalTZA = (\<lambda>t isUTC. 0),
      webhooks = [example_webhook, expired_webhook, live_webhook],
      webhooks_select_error = False,
      api_keys = [example_key],
      api_keys_select_error = False,
      TESTNET_URL = ''https://api-testnet.bybit.com'',
      MAINNET_URL = ''https://api.bybit.com'',
      instruments_info =
        (\<lambda>url. Info \<lparr>retCode = Num (Fin 0), retMsg = Str ''OK'',
                         lotSizeFilter = Some example_filter\<rparr>),
      executeBybitOrder = (\<lambda>p. Order_Resolves (Some (example_result p))),
      trades_insert_error = False,
      bots_update_error = False,
      nanoid = (\<lambda>n. take n ''V1StGXR8_Z5jdHi6B-myTabcdefghijk''),
      webhooks_insert_error = None\<rparr>"

text \<open>The same deployment without its configuration, without keys, and with an exchange that refuses the query.\<close>

definition unconfigured_world :: world where
  "unconfigured_world = example_world\<lparr>SUPABASE_URL := None, webhooks := []\<rparr>"

definition keyless_world :: world where
  "keyless_world = example_world\<lparr>api_keys := []\<rparr>"

definition refusing_world :: world where
  "refusing_world =
     example_world\<lparr>instruments_info :=
       (\<lambda>url. Info \<lparr>retCode = Num (Fin 10001), retMsg = Str ''params error'',
                        lotSizeFilter = None\<rparr>)\<rparr>"

text \<open>The same deployment with a slow clock: a minute passes between two readings.\<close>

definition later_world :: world where
  "later_world = example_world\<lparr>clock := (\<lambda>k. 1705312800000 + 60000 * int k)\<rparr>"

definition example_alert :: alert where
  "example_alert = empty_alert\<lparr>alert_side := Str [], alert_quantity := Str ''0.127''\<rparr>"

definition example_request :: "alert request" where
  "example_request =
     \<lparr>http_method = ''POST'', protocol = ''https:'', host = ''bot.example.app'',
      pathname = ''/.netlify/functions/processAlert/live-token'',
      json = Json_Fields example_alert\<rparr>"

text \<open>The example alert with a limit price.\<close>

definition priced_request :: "alert request" where
  "priced_request =
     example_request\<lparr>json := Json_Fields (example_alert\<lparr>alert_price := Num (Fin 42000)\<rparr>)\<rparr>"

definition live_request :: "alert request" where
  "live_request = example_request\<lparr>pathname := ''/.netlify/functions/processAlert/real-token''\<rparr>"

definition expired_request :: "alert request" where
  "expired_request = example_request\<lparr>pathname := ''/.netlify/functions/processAlert/old-token''\<rparr>"

text \<open>The order parameters that the example alert leads to, for the bot in test mode.\<close>

definition example_params :: order_params where
  "example_params =
     \<lparr>apiKey = Str ''key'', apiSecret = Str ''secret'', symbol = ''BTCUSDT'',
      side = Str ''Buy'', orderType = Str ''Market'', quantity = parseFloat ''0.12'',
      price = Undefined, stopLoss = Null, takeProfit = Null, testnet = Bool True\<rparr>"

definition example_webhook_request :: "webhook_request request" where
  "example_webhook_request =
     \<lparr>http_method = ''POST'', protocol = ''https:'', host = ''bot.example.app'',
      pathname = ''/.netlify/functions/generateWebhook'',
      json = Json_Fields \<lparr>userId = Primitive (Str ''user-1''), botId = Primitive (Str ''bot-1''),
                           expirationDays = Primitive Undefined\<rparr>\<rparr>"


text \<open>
  The same deployment on a host in Central European time, with the summer time of 2024:
  the offset is two hours from 2024-03-31 01:00 UTC to 2024-10-27 01:00 UTC and one hour
  otherwise. A local time that the change skips counts with the offset before it, and a
  local time that occurs twice as its first occurrence. The clock starts on 2024-03-01
  at 10:00 UTC.
\<close>

definition central_european_2024 :: "int \<Rightarrow> bool \<Rightarrow> int" where
  "central_european_2024 t isUTC =
     (if isUTC then (if 1711846800000 \<le> t \<and> t < 1729990800000 then 7200000 else 3600000)
      else (if 1711854000000 \<le> t \<and> t < 1729998000000 then 7200000 else 3600000))"

definition summer_time_world :: world where
  "summer_time_world =
     example_world\<lparr>clock := (\<lambda>k. 1709287200000 + int k), LocalTZA := central_european_2024\<rparr>"

section \<open>Facts about rounding\<close>

text \<open>The exponent found by \<open>binade\<close> is the one that brackets its argument.\<close>

lemma binade_bounds:
  assumes "0 < a"
  shows "2 powi binade a \<le> a \<and> a < 2 powi (binade a + 1)"
proof (cases "1 \<le> a")
  case True
  define m where "m = \<lfloor>a\<rfloor>"
  have m: "0 < m" using True by (simp add: m_def)
  have b1: "1 \<le> bitlen m" using m bitlen_eq_zero_iff[of m] bitlen_nonneg[of m] by linarith
  from bitlen_bounds[OF m] have lo: "2 ^ nat (bitlen m - 1) \<le> m" and hi: "m < 2 ^ nat (bitlen m)"
    by auto
  have "(2::rat) powi (bitlen m - 1) = of_int (2 ^ nat (bitlen m - 1))"
    using b1 by (simp add: power_int_nonneg_exp)
  also have "\<dots> \<le> of_int m" using lo by (simp only: of_int_le_iff)
  also have "\<dots> \<le> a" by (simp add: m_def)
  finally have A: "2 powi (bitlen m - 1) \<le> a" .
  have "m + 1 \<le> 2 ^ nat (bitlen m)" using hi by simp
  then have "(of_int (m + 1)::rat) \<le> of_int (2 ^ nat (bitlen m))" by (simp only: of_int_le_iff)
  moreover have "a < of_int (m + 1)" using floor_correct[of a] by (simp add: m_def)
  ultimately have "a < of_int (2 ^ nat (bitlen m))" by linarith
  also have "\<dots> = 2 powi (bitlen m)" using b1 by (simp add: power_int_nonneg_exp)
  finally have B: "a < 2 powi (bitlen m)" .
  show ?thesis using True A B by (simp add: binade_def m_def)
next
  case False
  define m where "m = \<lfloor>1 / a\<rfloor>"
  define b where "b = bitlen m"
  have inv: "1 < 1 / a" using False assms by simp
  have m: "0 < m" using inv by (simp add: m_def)
  have b1: "1 \<le> b" using m bitlen_eq_zero_iff[of m] bitlen_nonneg[of m] unfolding b_def by linarith
  from bitlen_bounds[OF m] have lo: "2 ^ nat (b - 1) \<le> m" and hi: "m < 2 ^ nat b"
    by (auto simp: b_def)
  have "(2::rat) powi (b - 1) = of_int (2 ^ nat (b - 1))"
    using b1 by (simp add: power_int_nonneg_exp)
  also have "\<dots> \<le> of_int m" using lo by (simp only: of_int_le_iff)
  also have "\<dots> \<le> 1 / a" by (simp add: m_def)
  finally have A: "2 powi (b - 1) \<le> 1 / a" .
  have "m + 1 \<le> 2 ^ nat b" using hi by simp
  then have "(of_int (m + 1)::rat) \<le> of_int (2 ^ nat b)" by (simp only: of_int_le_iff)
  moreover have "1 / a < of_int (m + 1)" using floor_correct[of "1 / a"] by (simp add: m_def)
  ultimately have "1 / a < of_int (2 ^ nat b)" by linarith
  also have "\<dots> = 2 powi b" using b1 by (simp add: power_int_nonneg_exp)
  finally have B: "1 / a < 2 powi b" .
  have pos: "(0::rat) < 2 powi b" "(0::rat) < 2 powi (b - 1)" by simp_all
  have A': "a * 2 powi (b - 1) \<le> 1" using A assms pos by (simp add: field_simps)
  have B': "2 powi (- b) < a" using B assms pos by (simp add: power_int_minus field_simps)
  have C: "(2::rat) powi (1 - b) * 2 powi (b - 1) = 1"
    by (simp add: power_int_add[symmetric])
  have bin: "binade a = (if a * 2 powi (b - 1) = 1 then 1 - b else - b)"
    using False by (simp add: binade_def m_def b_def Let_def)
  show ?thesis
  proof (cases "a * 2 powi (b - 1) = 1")
    case True
    then have eq: "a = 2 powi (1 - b)" using C pos by (metis mult_cancel_right less_irrefl)
    have "(2::rat) powi (1 - b) < 2 powi (1 - b + 1)"
      by (rule power_int_strict_increasing) simp_all
    then show ?thesis using True bin eq by simp
  next
    case F2: False
    then have "a * 2 powi (b - 1) < 1" using A' by simp
    then have "a < 2 powi (1 - b)" using pos C by (metis mult_less_cancel_right_pos)
    then show ?thesis using F2 B' bin by (simp add: less_imp_le)
  qed
qed

lemma two_powi_less_cancel: "(2::rat) powi e < 2 powi f \<Longrightarrow> e < f"
  using power_int_increasing[of f e "2::rat"] by (cases "e < f") auto

lemma binade_unique:
  assumes "2 powi e \<le> a" "a < 2 powi (e + 1)"
  shows "binade a = e"
proof -
  have a: "0 < a" using assms(1) by (meson less_le_trans zero_less_numeral zero_less_power_int)
  from binade_bounds[OF a] have 1: "2 powi binade a \<le> a" and 2: "a < 2 powi (binade a + 1)" by auto
  have "(2::rat) powi e < 2 powi (binade a + 1)" using assms(1) 2 by linarith
  then have "e < binade a + 1" by (rule two_powi_less_cancel)
  moreover have "(2::rat) powi binade a < 2 powi (e + 1)" using assms(2) 1 by linarith
  then have "binade a < e + 1" by (rule two_powi_less_cancel)
  ultimately show ?thesis by linarith
qed


lemma binade_mono:
  assumes "0 < a" "a \<le> b"
  shows "binade a \<le> binade b"
proof -
  have b: "0 < b" using assms by linarith
  have "2 powi binade a \<le> a" using binade_bounds[OF assms(1)] by simp
  also have "a \<le> b" by fact
  also have "b < 2 powi (binade b + 1)" using binade_bounds[OF b] by simp
  finally have "binade a < binade b + 1" by (rule two_powi_less_cancel)
  then show ?thesis by simp
qed

lemma round_ties_even_of_int: "round_ties_even (of_int n) = n"
  by (simp add: round_ties_even_def)

lemma round_ties_even_range:
  "\<lfloor>x\<rfloor> \<le> round_ties_even x \<and> round_ties_even x \<le> \<lfloor>x\<rfloor> + 1"
  by (simp add: round_ties_even_def Let_def)

lemma round_ties_even_mono:
  assumes "x \<le> y"
  shows "round_ties_even x \<le> round_ties_even y"
proof (cases "\<lfloor>x\<rfloor> = \<lfloor>y\<rfloor>")
  case True
  then show ?thesis using assms by (auto simp: round_ties_even_def Let_def)
next
  case False
  then have "\<lfloor>x\<rfloor> < \<lfloor>y\<rfloor>" using floor_mono[OF assms] by linarith
  then show ?thesis
    using round_ties_even_range[of x] round_ties_even_range[of y] by linarith
qed

lemma round_magnitude_eval:
  assumes "2 powi e \<le> a" "a < 2 powi (e + 1)"
  shows "round_magnitude a =
     of_int (round_ties_even (a / 2 powi max (e - 52) (- 1074))) * 2 powi max (e - 52) (- 1074)"
  by (simp add: round_magnitude_def quantum_def binade_unique[OF assms])

lemma round_magnitude_mono:
  assumes "0 < a" "a \<le> b"
  shows "round_magnitude a \<le> round_magnitude b"
proof -
  have b: "0 < b" using assms by linarith
  have q: "quantum a \<le> quantum b"
    using binade_mono[OF assms] by (simp add: quantum_def)
  show ?thesis
  proof (cases "quantum a = quantum b")
    case True
    have "a / 2 powi quantum b \<le> b / 2 powi quantum b"
      using assms(2) by (simp add: divide_right_mono)
    then have "round_ties_even (a / 2 powi quantum b) \<le> round_ties_even (b / 2 powi quantum b)"
      by (rule round_ties_even_mono)
    then show ?thesis by (simp add: round_magnitude_def True mult_right_mono)
  next
    case False
    then have lt: "quantum a < quantum b" using q by linarith
    then have qb: "quantum b = binade b - 52" by (auto simp: quantum_def max_def split: if_splits)
    have qa: "binade a - 52 \<le> quantum a" by (simp add: quantum_def)
    define B :: rat where "B = 2 powi binade b"
    define k where "k = nat (binade b - quantum a)"
    have kpos: "0 \<le> binade b - quantum a" using lt qb by linarith
    have "a < 2 powi (binade a + 1)" using binade_bounds[OF assms(1)] by simp
    also have "\<dots> \<le> B" unfolding B_def
      by (rule power_int_increasing) (use lt qb qa in simp_all)
    finally have aB: "a < B" .
    have "a / 2 powi quantum a \<le> B / 2 powi quantum a"
      using aB by (simp add: divide_right_mono)
    also have "B / 2 powi quantum a = 2 powi (binade b - quantum a)"
      by (simp add: B_def power_int_diff)
    also have "\<dots> = of_int (2 ^ k)" using kpos by (simp add: k_def power_int_nonneg_exp)
    finally have "round_ties_even (a / 2 powi quantum a) \<le> round_ties_even (of_int (2 ^ k))"
      by (rule round_ties_even_mono)
    then have "round_ties_even (a / 2 powi quantum a) \<le> 2 ^ k"
      by (simp only: round_ties_even_of_int)
    then have "(of_int (round_ties_even (a / 2 powi quantum a))::rat) \<le> of_int (2 ^ k)"
      by (simp only: of_int_le_iff)
    then have "round_magnitude a \<le> of_int (2 ^ k) * 2 powi quantum a"
      by (simp add: round_magnitude_def mult_right_mono)
    also have "of_int (2 ^ k) * 2 powi quantum a = 2 powi (binade b - quantum a) * 2 powi quantum a"
      using kpos by (simp add: k_def power_int_nonneg_exp)
    also have "\<dots> = B" by (simp add: B_def power_int_add[symmetric])
    finally have left: "round_magnitude a \<le> B" .
    have "B \<le> b" using binade_bounds[OF b] by (simp add: B_def)
    then have "B / 2 powi quantum b \<le> b / 2 powi quantum b" by (simp add: divide_right_mono)
    moreover have "B / 2 powi quantum b = of_int (2 ^ 52)"
      by (simp add: B_def qb power_int_diff[symmetric])
    ultimately have "round_ties_even (of_int (2 ^ 52)) \<le> round_ties_even (b / 2 powi quantum b)"
      by (metis round_ties_even_mono)
    then have "2 ^ 52 \<le> round_ties_even (b / 2 powi quantum b)"
      by (simp only: round_ties_even_of_int)
    then have "(of_int (2 ^ 52)::rat) \<le> of_int (round_ties_even (b / 2 powi quantum b))"
      by (simp only: of_int_le_iff)
    then have "of_int (2 ^ 52) * 2 powi quantum b \<le> round_magnitude b"
      by (simp add: round_magnitude_def mult_right_mono)
    moreover have "of_int (2 ^ 52) * 2 powi quantum b = B"
      by (simp add: B_def qb power_int_diff field_simps)
    ultimately have "B \<le> round_magnitude b" by simp
    with left show ?thesis by linarith
  qed
qed

lemma round_magnitude_nonneg: "0 < a \<Longrightarrow> 0 \<le> round_magnitude a"
proof -
  assume a: "0 < a"
  have "0 \<le> a / 2 powi quantum a" using a by simp
  then have "round_ties_even 0 \<le> round_ties_even (a / 2 powi quantum a)"
    by (rule round_ties_even_mono)
  then have "0 \<le> round_ties_even (a / 2 powi quantum a)"
    using round_ties_even_of_int[of 0] by simp
  then show ?thesis by (simp add: round_magnitude_def)
qed

text \<open>
  Evaluation of \<open>round_double\<close> at a numeral: the binade is supplied, its two bounds are
  checked by computation.
\<close>

lemma floor_rat_numeral: "\<lfloor>(numeral a / numeral b :: rat)\<rfloor> = numeral a div numeral b"
  using floor_divide_of_int_eq[of "numeral a" "numeral b", where ?'a = rat] by simp

lemmas round_double_eval = round_double_def round_ties_even_def Let_def floor_rat_numeral

text \<open>Rounding is monotone on the non-negative rationals, overflow included.\<close>

lemma round_double_nonneg:
  assumes "0 \<le> x"
  shows "round_double x = PosInf \<or> (\<exists>y. 0 \<le> y \<and> round_double x = Fin y)"
proof (cases "x = 0")
  case True
  then show ?thesis by (simp add: round_double_def)
next
  case False
  then have "0 < x" using assms by simp
  then show ?thesis using round_magnitude_nonneg[of x]
    by (simp add: round_double_def Let_def)
qed

lemma round_double_mono:
  assumes "0 \<le> x" "x \<le> y"
  shows "js_ge (round_double y) (round_double x)"
proof (cases "x = 0")
  case True
  have "0 \<le> y" using assms by linarith
  from round_double_nonneg[OF this] show ?thesis
    using True by (auto simp: round_double_def)
next
  case False
  then have x: "0 < x" using assms by simp
  then have y: "0 < y" using assms by linarith
  have "round_magnitude x \<le> round_magnitude y"
    using x assms(2) by (rule round_magnitude_mono)
  then show ?thesis using x y by (simp add: round_double_def Let_def)
qed

section \<open>Facts about quantity normalization\<close>

lemma floored_multiple_cases:
  assumes "0 \<le> raw" "0 < step"
  shows "js_mul (js_floor (js_div (Fin raw) (Fin step))) (Fin step) = PosInf
       \<or> (\<exists>x. 0 \<le> x \<and> js_mul (js_floor (js_div (Fin raw) (Fin step))) (Fin step) = Fin x)"
proof -
  have "0 \<le> raw / step" using assms by simp
  from round_double_nonneg[OF this] show ?thesis
  proof
    assume "round_double (raw / step) = PosInf"
    then show ?thesis using assms by simp
  next
    assume "\<exists>y. 0 \<le> y \<and> round_double (raw / step) = Fin y"
    then obtain y where y: "0 \<le> y" "round_double (raw / step) = Fin y" by blast
    have "0 \<le> of_int \<lfloor>y\<rfloor> * step" using y(1) assms(2) by simp
    from round_double_nonneg[OF this] show ?thesis using y assms by simp
  qed
qed

text \<open>
  Printing with \<open>d\<close> decimals and reading back is monotone above a value that survives
  the round trip.
\<close>

lemma fixed_round_trip_ge:
  assumes m: "0 \<le> m" "m \<le> x"
      and stable: "toFixed (Fin m) d = Inr t" "parseFloat_text t = Fin m"
  shows "\<exists>u. toFixed (Fin x) d = Inr u \<and> js_ge (parseFloat_text u) (Fin m)"
proof -
  have d: "\<not> 100 < d" using stable(1) by (auto simp: toFixed_def split: if_splits)
  have x0: "0 \<le> x" using m by linarith
  show ?thesis
  proof (cases "10 ^ 21 \<le> x")
    case True
    then show ?thesis using d m x0 by (simp add: toFixed_def)
  next
    case False
    then have m21: "\<not> 10 ^ 21 \<le> m" using m by linarith
    define nm where "nm = nat \<lfloor>m * 10 ^ d + 1 / 2\<rfloor>"
    define nx where "nx = nat \<lfloor>x * 10 ^ d + 1 / 2\<rfloor>"
    have tm: "t = Decimal_Text False nm d"
      using stable(1) d m21 m(1) by (simp add: toFixed_def nm_def)
    have rm: "round_double (of_nat nm / 10 ^ d) = Fin m"
      using stable(2) tm by simp
    have "m * 10 ^ d + 1 / 2 \<le> x * 10 ^ d + 1 / 2" using m(2) by (simp add: mult_right_mono)
    then have "nm \<le> nx" unfolding nm_def nx_def by (intro nat_mono floor_mono)
    then have "(of_nat nm :: rat) / 10 ^ d \<le> of_nat nx / 10 ^ d"
      by (simp add: divide_right_mono)
    moreover have "(0::rat) \<le> of_nat nm / 10 ^ d" by simp
    ultimately have "js_ge (round_double (of_nat nx / 10 ^ d)) (round_double (of_nat nm / 10 ^ d))"
      by (rule round_double_mono[rotated])
    then show ?thesis using False d x0 rm by (simp add: toFixed_def nx_def)
  qed
qed

text \<open>
  What \<open>toFixed\<close> prints with \<open>d\<close> decimals reads back as the double nearest to a
  decimal with \<open>d\<close> places; from \<open>10\<^sup>2\<^sup>1\<close> on the number is printed in full.
\<close>

lemma fixed_round_trip_decimal:
  assumes "0 \<le> x" "toFixed (Fin x) d = Inr u"
  shows "(\<exists>n. parseFloat_text u = round_double (of_nat n / 10 ^ d))
       \<or> js_ge (parseFloat_text u) (Fin (10 ^ 21))"
proof (cases "10 ^ 21 \<le> x")
  case True
  then have "u = Number_Text (Fin x)"
    using assms by (auto simp: toFixed_def split: if_splits)
  then show ?thesis using True by simp
next
  case False
  then have "u = Decimal_Text False (nat \<lfloor>x * 10 ^ d + 1 / 2\<rfloor>) d"
    using assms by (auto simp: toFixed_def split: if_splits)
  then have "parseFloat_text u = round_double (of_nat (nat \<lfloor>x * 10 ^ d + 1 / 2\<rfloor>) / 10 ^ d)"
    by simp
  then show ?thesis by blast
qed

lemma adjust_quantity_cases:
  "adjust_quantity minQty step d rawQty =
     (let floored = js_mul (js_floor (js_div rawQty step)) step;
          qty = (if js_lt rawQty minQty \<or> js_lt floored minQty then minQty else floored)
      in map_sum id parseFloat_text (toFixed qty d))"
  by (cases "toFixed minQty d"; cases "toFixed (js_mul (js_floor (js_div rawQty step)) step) d")
     (simp_all add: adjust_quantity_def Let_def)

section \<open>Evaluating the numeric text of the examples\<close>

lemmas scan_eval = parseFloat_def trim_start_def scan_decimal_literal_def
  scan_unsigned_decimal_def is_digit_def is_space_def digits_val_def digit_val_def

lemma parseFloat_0_01: "parseFloat ''0.01'' = Fin (5764607523034235 / 576460752303423488)"
  by (simp add: scan_eval round_double_eval round_magnitude_eval[where e = "- 7"])

lemma parseFloat_0_014: "parseFloat ''0.014'' = Fin (8070450532247929 / 576460752303423488)"
  by (simp add: scan_eval round_double_eval round_magnitude_eval[where e = "- 7"])

lemma parseFloat_0_1: "parseFloat ''0.1'' = Fin (3602879701896397 / 36028797018963968)"
  by (simp add: scan_eval round_double_eval round_magnitude_eval[where e = "- 4"])

lemma parseFloat_0_2: "parseFloat ''0.2'' = Fin (3602879701896397 / 18014398509481984)"
  by (simp add: scan_eval round_double_eval round_magnitude_eval[where e = "- 3"])

lemma parseFloat_0_3: "parseFloat ''0.3'' = Fin (5404319552844595 / 18014398509481984)"
  by (simp add: scan_eval round_double_eval round_magnitude_eval[where e = "- 2"])

lemma parseFloat_0_35: "parseFloat ''0.35'' = Fin (3152519739159347 / 9007199254740992)"
  by (simp add: scan_eval round_double_eval round_magnitude_eval[where e = "- 2"])

lemma parseFloat_0_12: "parseFloat ''0.12'' = Fin (1080863910568919 / 9007199254740992)"
  by (simp add: scan_eval round_double_eval round_magnitude_eval[where e = "- 4"])

lemma parseFloat_0_127: "parseFloat ''0.127'' = Fin (571957152676053 / 4503599627370496)"
  by (simp add: scan_eval round_double_eval round_magnitude_eval[where e = "- 3"])

section \<open>Facts about dates\<close>

lemma div_bounds:
  fixes a n :: int
  assumes "0 < n"
  shows "n * (a div n) \<le> a \<and> a < n * (a div n) + n"
  using pos_mod_bound[OF assms, of a] pos_mod_sign[OF assms, of a] mult_div_mod_eq[of n a]
  by linarith

text \<open>The estimate in \<open>YearFromTime\<close> is within one year of the year that holds the day.\<close>

lemma year_estimate:
  fixes d :: int
  defines "g \<equiv> 1970 + (d * 400) div 146097"
  shows "DayFromYear (g - 1) \<le> d \<and> d < DayFromYear (g + 2)"
proof -
  note bounds = div_bounds[of 146097 "d * 400"]
    div_bounds[of 4 "g - 1 - 1969"] div_bounds[of 100 "g - 1 - 1901"]
    div_bounds[of 400 "g - 1 - 1601"] div_bounds[of 4 "g + 2 - 1969"]
    div_bounds[of 100 "g + 2 - 1901"] div_bounds[of 400 "g + 2 - 1601"]
  show ?thesis using bounds unfolding DayFromYear_def g_def by simp
qed

lemma YearFromTime_bracket:
  "DayFromYear (YearFromTime t) \<le> Day t \<and> Day t < DayFromYear (YearFromTime t + 1)"
proof -
  define g where "g = 1970 + (Day t * 400) div 146097"
  have est: "DayFromYear (g - 1) \<le> Day t" "Day t < DayFromYear (g + 2)"
    using year_estimate[of "Day t"] by (simp_all add: g_def)
  have y: "YearFromTime t =
      (if DayFromYear (g + 1) \<le> Day t then g + 1 else if DayFromYear g \<le> Day t then g else g - 1)"
    by (simp add: YearFromTime_def g_def Let_def)
  have two: "g + 1 + 1 = g + 2" by simp
  show ?thesis using est unfolding y by (auto simp: two)
qed

lemma year_length_bound: "DayFromYear (y + 1) - DayFromYear y < 370"
proof -
  note bounds = div_bounds[of 4 "y + 1 - 1969"] div_bounds[of 100 "y + 1 - 1901"]
    div_bounds[of 400 "y + 1 - 1601"] div_bounds[of 4 "y - 1969"]
    div_bounds[of 100 "y - 1901"] div_bounds[of 400 "y - 1601"]
  show ?thesis using bounds unfolding DayFromYear_def by simp
qed

lemma DayWithinYear_bounds: "0 \<le> DayWithinYear t \<and> DayWithinYear t < 370"
  using YearFromTime_bracket[of t] year_length_bound[of "YearFromTime t"]
  by (simp add: DayWithinYear_def)

lemma MonthFromTime_range: "0 \<le> MonthFromTime t \<and> MonthFromTime t \<le> 11"
  by (simp add: MonthFromTime_def Let_def)

lemma month_start_range: "0 \<le> month_start m leap \<and> month_start m leap \<le> 335"
  by (simp add: month_start_def Let_def)

lemma DateFromTime_bounds: "- 400 < DateFromTime t \<and> DateFromTime t < 400"
  using DayWithinYear_bounds[of t] month_start_range[of "MonthFromTime t" "InLeapYear t"]
  by (simp add: DateFromTime_def)

text \<open>
  Setting the day of the month to the current one plus \<open>n\<close> moves the date by \<open>n\<close> days,
  whatever the month lengths: \<open>MakeDay\<close> counts from the first of the current month.
\<close>

lemma MakeDay_same_month:
  "MakeDay (YearFromTime t) (MonthFromTime t) (DateFromTime t + n) = Day t + n"
proof -
  have m: "MonthFromTime t div 12 = 0" "MonthFromTime t mod 12 = MonthFromTime t"
    using MonthFromTime_range[of t] by simp_all
  show ?thesis
    by (simp add: MakeDay_def m DateFromTime_def DayWithinYear_def InLeapYear_def Let_def)
qed

lemma to_integer_of_int: "to_integer (of_int n) = n"
  by (simp add: to_integer_def)

lemma setDate_plus_days:
  "setDate tza t (Fin (of_int (getDate tza t + n)))
     = TimeClip (UTC tza (LocalTime tza t + n * msPerDay))"
proof -
  define lt where "lt = LocalTime tza t"
  have "MakeDate (Day lt + n) (TimeWithinDay lt) = lt + n * msPerDay"
    by (simp add: MakeDate_def Day_def TimeWithinDay_def algebra_simps)
  moreover have "to_integer (of_int (getDate tza t + n)) = DateFromTime lt + n"
    by (simp only: to_integer_of_int getDate_def lt_def)
  ultimately show ?thesis
    by (simp only: setDate_def number.case Let_def MakeDay_same_month lt_def[symmetric])
qed

text \<open>
  When the offset in effect at the new local time is the one in effect now, the instant
  moves by \<open>n\<close> days of 24 hours.
\<close>

lemma UTC_LocalTime_plus:
  assumes "tza (LocalTime tza t + d) False = tza t True"
  shows "UTC tza (LocalTime tza t + d) = t + d"
  using assms by (simp add: UTC_def LocalTime_def)

text \<open>Integers below \<open>2\<^sup>5\<^sup>3\<close> in magnitude are doubles.\<close>

lemma round_magnitude_of_int:
  assumes "0 < k" "k < 2 ^ 53"
  shows "round_magnitude (of_int k) = of_int k"
proof -
  define a :: rat where "a = of_int k"
  have a: "0 < a" using assms(1) by (simp add: a_def)
  have "a < of_int (2 ^ 53)" unfolding a_def using assms(2) by (simp only: of_int_less_iff)
  then have "a < 2 powi 53" by simp
  with binade_bounds[OF a] have "(2::rat) powi binade a < 2 powi 53" by linarith
  then have "binade a < 53" by (rule two_powi_less_cancel)
  then have q: "quantum a \<le> 0" by (simp add: quantum_def)
  define j where "j = nat (- quantum a)"
  have p: "(2::rat) powi quantum a = 1 / 2 ^ j"
    using q by (simp add: j_def power_int_def field_simps)
  have "a / 2 powi quantum a = of_int (k * 2 ^ j)" unfolding p by (simp add: a_def)
  then have "round_ties_even (a / 2 powi quantum a) = k * 2 ^ j"
    by (simp only: round_ties_even_of_int)
  then have "round_magnitude a = of_int (k * 2 ^ j) * (1 / 2 ^ j)"
    unfolding round_magnitude_def p by simp
  then show ?thesis by (simp add: a_def)
qed

lemma round_double_of_int:
  assumes "\<bar>k\<bar> < 2 ^ 53"
  shows "round_double (of_int k) = Fin (of_int k)"
proof -
  have big: "(of_int j :: rat) < 2 ^ 1024" if "j < 2 ^ 53" for j :: int
  proof -
    have "(of_int j :: rat) < of_int (2 ^ 53)" using that by (simp only: of_int_less_iff)
    also have "\<dots> \<le> 2 ^ 1024" by simp
    finally show ?thesis .
  qed
  consider "k = 0" | "0 < k" | "k < 0" by linarith
  then show ?thesis
  proof cases
    case 1
    then show ?thesis by (simp add: round_double_def)
  next
    case 2
    then have "k < 2 ^ 53" using assms by simp
    then show ?thesis using 2 big[of k]
      by (simp add: round_double_def round_magnitude_of_int Let_def)
  next
    case 3
    then have k: "0 < - k" "- k < 2 ^ 53" using assms by simp_all
    have "round_magnitude (- of_int k) = of_int (- k)"
      using round_magnitude_of_int[OF k] by simp
    then show ?thesis using 3 big[OF k(2)]
      by (simp add: round_double_def Let_def)
  qed
qed

lemma day_plus_thirty:
  "to_number (day_plus (getDate tza t) (Num (Fin 30))) = Fin (of_int (getDate tza t + 30))"
proof -
  have "\<bar>getDate tza t + 30\<bar> < 2 ^ 53"
    using DateFromTime_bounds[of "LocalTime tza t"] by (auto simp: getDate_def abs_less_iff)
  from round_double_of_int[OF this] show ?thesis by simp
qed

section \<open>Facts about text\<close>

declare show_nat.simps [simp del]

lemma digit_char: "k < 10 \<Longrightarrow> digit_val (char_of (48 + k)) = k"
  by (simp add: digit_val_def)

lemma digit_char_not_minus: "(k::nat) < 10 \<Longrightarrow> char_of (48 + k) \<noteq> CHR ''-''"
proof
  assume k: "k < 10" and eq: "char_of (48 + k) = CHR ''-''"
  have "of_char (char_of (48 + k) :: char) = (48 + k :: nat)" using k by simp
  then have "of_char CHR ''-'' = (48 + k :: nat)" using eq by simp
  then show False by simp
qed

lemma digits_val_snoc: "digits_val (s @ [c]) = 10 * digits_val s + digit_val c"
  by (simp add: digits_val_def)

text \<open>Printing a natural number and reading the digits back gives the number.\<close>

lemma digits_val_show_nat: "digits_val (show_nat n) = n"
proof (induction n rule: show_nat.induct)
  case (1 n)
  show ?case
  proof (cases "n < 10")
    case True
    then show ?thesis
      using digit_char[of n] by (simp add: show_nat.simps[of n] digits_val_def)
  next
    case False
    then have "digits_val (show_nat (n div 10)) = n div 10" using "1.IH" by simp
    then show ?thesis
      using False digit_char[of "n mod 10"]
      by (simp add: show_nat.simps[of n] digits_val_snoc)
  qed
qed

lemma show_nat_inj: "show_nat a = show_nat b \<Longrightarrow> a = b"
  by (metis digits_val_show_nat)

lemma show_nat_no_minus: "CHR ''-'' \<notin> set (show_nat n)"
proof (induction n rule: show_nat.induct)
  case (1 n)
  show ?case
  proof (cases "n < 10")
    case True
    then show ?thesis using digit_char_not_minus[of n] by (auto simp: show_nat.simps[of n])
  next
    case False
    then show ?thesis
      using "1.IH" digit_char_not_minus[of "n mod 10"] by (auto simp: show_nat.simps[of n])
  qed
qed

lemma show_int_inj:
  assumes eq: "show_int a = show_int b"
  shows "a = b"
proof -
  consider "a < 0" "b < 0" | "\<not> a < 0" "\<not> b < 0" | "a < 0" "\<not> b < 0" | "\<not> a < 0" "b < 0"
    by blast
  then show ?thesis
  proof cases
    case 1
    then have "nat (- a) = nat (- b)" using eq show_nat_inj by (simp add: show_int_def)
    then show ?thesis using 1 by linarith
  next
    case 2
    then have "nat a = nat b" using eq show_nat_inj by (simp add: show_int_def)
    then show ?thesis using 2 by linarith
  next
    case 3
    then have "CHR ''-'' # show_nat (nat (- a)) = show_nat (nat b)"
      using eq by (simp add: show_int_def)
    then have "CHR ''-'' \<in> set (show_nat (nat b))"
      by (metis list.set_intros(1))
    then show ?thesis using show_nat_no_minus by blast
  next
    case 4
    then have "CHR ''-'' # show_nat (nat (- b)) = show_nat (nat a)"
      using eq by (simp add: show_int_def)
    then have "CHR ''-'' \<in> set (show_nat (nat a))"
      by (metis list.set_intros(1))
    then show ?thesis using show_nat_no_minus by blast
  qed
qed

text \<open>The last piece of a text split at a separator is what follows the last separator.\<close>

lemma split_on_last_piece:
  assumes "c \<notin> set t"
  shows "\<exists>q qs. split_on c (p @ c # t) = q # qs @ [t]"
proof (induction p)
  case Nil
  have "split_on c t = [t]" using assms by (induction t) auto
  then show ?case by simp
next
  case (Cons x p)
  then obtain q qs where "split_on c (p @ c # t) = q # qs @ [t]" by blast
  then show ?case by (cases "x = c") simp_all
qed

lemma last_split_on:
  assumes "c \<notin> set t"
  shows "last (split_on c (p @ c # t)) = t"
proof -
  from split_on_last_piece[OF assms, of p] obtain q qs
    where "split_on c (p @ c # t) = q # qs @ [t]" by blast
  then show ?thesis by simp
qed

section \<open>Facts about the handlers\<close>

text \<open>Before the dispatch, processAlert reads the database and queries the exchange only.\<close>

lemma no_side_effects_iff:
  "no_side_effects es \<longleftrightarrow> (\<forall>e \<in> set es. \<not> is_write e \<and> \<not> is_order_call e)"
  by (simp add: no_side_effects_def list_all_iff)

lemma prepare_order_quiet:
  "\<forall>e \<in> set (snd (prepare_order w webhook k j)). \<not> is_write e \<and> \<not> is_order_call e"
  by (auto simp: prepare_order_def Let_def
      split: json_body.splits option.splits sum.splits)

text \<open>What \<open>receive\<close> returns for a POST request to a configured function.\<close>

lemma receive_post:
  assumes "http_method req = ''POST''" "\<not> env_missing w"
  shows "receive w req =
     (case select_webhook w (webhook_token_of (pathname req)) (clock w 0) of
        None \<Rightarrow>
          (Inl \<lparr>http_status = 404, body = Error_Body ''Invalid or expired webhook''\<rparr>,
           [Select_Webhook (webhook_token_of (pathname req)) (toISOString (clock w 0))])
      | Some webhook \<Rightarrow>
          (case select_api_key w (user_id webhook) of
             None \<Rightarrow>
               (Inl \<lparr>http_status = 400, body = Error_Body ''API credentials not found''\<rparr>,
                [Select_Webhook (webhook_token_of (pathname req)) (toISOString (clock w 0)),
                 Select_Api_Key (user_id webhook)])
           | Some k \<Rightarrow>
               (case prepare_order w webhook k (alert_data (json req)) of
                  (Inl e, e3) \<Rightarrow>
                    (Inl \<lparr>http_status = 500, body = Thrown_Body e\<rparr>,
                     [Select_Webhook (webhook_token_of (pathname req)) (toISOString (clock w 0)),
                      Select_Api_Key (user_id webhook)] @ e3)
                | (Inr (b, p), e3) \<Rightarrow>
                    (Inr (webhook, b, p),
                     [Select_Webhook (webhook_token_of (pathname req)) (toISOString (clock w 0)),
                      Select_Api_Key (user_id webhook)] @ e3))))"
proof (cases "select_webhook w (webhook_token_of (pathname req)) (clock w 0)")
  case None
  then show ?thesis using assms by (simp add: receive_def Let_def)
next
  case (Some webhook)
  then show ?thesis using assms
    by (cases "select_api_key w (user_id webhook)") (simp_all add: receive_def Let_def)
qed

lemma prepare_order_quietD:
  assumes "prepare_order w webhook k j = (x, e3)" "e \<in> set e3"
  shows "\<not> is_write e" "\<not> is_order_call e"
  using prepare_order_quiet[of w webhook k j] assms by auto

lemma receive_quiet:
  assumes "receive w req = (x, es)"
  shows "\<forall>e \<in> set es. \<not> is_write e \<and> \<not> is_order_call e"
proof (cases "http_method req = ''POST'' \<and> \<not> env_missing w")
  case True
  have "\<forall>e \<in> set (snd (receive w req)). \<not> is_write e \<and> \<not> is_order_call e"
    using True
    by (auto simp: receive_post split: option.splits sum.splits prod.splits
        dest: prepare_order_quietD)
  then show ?thesis using assms by simp
next
  case False
  then have "snd (receive w req) = []" by (auto simp: receive_def)
  then show ?thesis using assms by simp
qed

lemma processAlert_early:
  assumes "receive w req = (Inl early, es)"
  shows "processAlert w req = (early, es)"
  using assms by (simp add: processAlert_def)

text \<open>The parameters that reach the dispatch were built from the alert and the bot.\<close>

lemma prepare_order_params:
  assumes "prepare_order w webhook k j = (Inr (b, p), e3)"
  shows "\<exists>a sy q. j = Json_Fields a \<and> bots webhook = Some b
           \<and> p = build_order_params k sy a b q"
  using assms
  by (auto simp: prepare_order_def Let_def
      split: json_body.splits option.splits sum.splits)

lemma receive_params:
  assumes "receive w req = (Inr (webhook, b, p), es)"
  shows "\<exists>a k sy q. alert_data (json req) = Json_Fields a \<and> bots webhook = Some b
           \<and> p = build_order_params k sy a b q"
proof -
  have m: "http_method req = ''POST''" "\<not> env_missing w"
    using assms by (auto simp: receive_def split: if_splits)
  from assms obtain k e3 where
    "prepare_order w webhook k (alert_data (json req)) = (Inr (b, p), e3)"
    unfolding receive_post[OF m]
    by (auto split: option.splits sum.splits prod.splits)
  from prepare_order_params[OF this] show ?thesis by blast
qed

text \<open>The audit flags are read after the dispatch only.\<close>

lemma receive_audit_flags:
  "receive (w\<lparr>trades_insert_error := ti, bots_update_error := bu\<rparr>) req = receive w req"
  by (simp add: receive_def env_missing_def select_webhook_def select_api_key_def
      prepare_order_def Let_def
      cong: option.case_cong sum.case_cong prod.case_cong json_body.case_cong if_cong)

lemma dispatch_audit_flags:
  "dispatch (w\<lparr>trades_insert_error := ti, bots_update_error := bu\<rparr>) b p n = dispatch w b p n"
  by (simp add: dispatch_def)

text \<open>The only order call of an invocation is made with the parameters that \<open>receive\<close> built.\<close>

lemma log_trade_no_order_call: "\<forall>e \<in> set (log_trade w webhook b r n). \<not> is_order_call e"
  by (auto simp: log_trade_def)

lemma dispatch_order_calls:
  assumes "Execute_Order q \<in> set (snd (dispatch w b p n))"
  shows "q = p \<and> \<not> truthy (test_mode b)"
  using assms by (auto simp: dispatch_def split: if_splits order_outcome.splits option.splits)

lemma processAlert_order_calls:
  assumes "receive w req = (Inr (webhook, b, p), es)"
      and "Execute_Order q \<in> set (snd (processAlert w req))"
  shows "q = p \<and> \<not> truthy (test_mode b)"
proof -
  have es: "Execute_Order q \<notin> set es"
    using receive_quiet[OF assms(1)] by fastforce
  have lg: "Execute_Order q \<notin> set (log_trade w webhook b r n)" for r n
    using log_trade_no_order_call[of w webhook b r n] by fastforce
  have "Execute_Order q \<in> set (snd (dispatch w b p 1))"
    using assms(2) es lg
    by (auto simp: processAlert_def assms(1) split: prod.splits sum.splits)
  then show ?thesis by (rule dispatch_order_calls)
qed


text \<open>Before the dispatch the clock is read once.\<close>

lemma receive_clock:
  assumes "c 0 = clock w 0"
  shows "receive (w\<lparr>clock := c\<rparr>) req = receive w req"
  using assms
  by (simp add: receive_def env_missing_def select_webhook_def select_api_key_def
      prepare_order_def Let_def
      cong: option.case_cong sum.case_cong prod.case_cong json_body.case_cong if_cong)

text \<open>The price of the alert is passed on as it is and touches nothing else.\<close>

lemma prepare_order_price:
  assumes "prepare_order w webhook k (Json_Fields a) = (Inr (b, p), e3)"
  shows "prepare_order w webhook k (Json_Fields (a\<lparr>alert_price := x\<rparr>))
           = (Inr (b, p\<lparr>price := x\<rparr>), e3)"
proof -
  have s: "order_symbol (a\<lparr>alert_price := x\<rparr>) c = order_symbol a c" for c
    by (simp add: order_symbol_def)
  have q: "adjusted_quantity f (a\<lparr>alert_price := x\<rparr>) c = adjusted_quantity f a c" for f c
    by (simp add: adjusted_quantity_def)
  have bp: "build_order_params k sy (a\<lparr>alert_price := x\<rparr>) c v
      = (build_order_params k sy a c v)\<lparr>price := x\<rparr>" for sy c v
    by (simp add: build_order_params_def)
  show ?thesis
    using assms
    by (cases "truthy (test_mode b)")
       (auto simp: prepare_order_def s q bp Let_def split: option.splits sum.splits)
qed

text \<open>The dispatch in test mode.\<close>

lemma processAlert_test_mode:
  assumes "receive w req = (Inr (webhook, b, p), es)" and "truthy (test_mode b)"
  shows "processAlert w req =
     (\<lparr>http_status = 200,
       body = Alert_Body (Str (''test-'' @ show_int (clock w 1))) (Str ''TEST_ORDER'')
                (test_mode b)\<rparr>,
      es @ log_trade w webhook b (test_order p (clock w 1)) 2)"
  using assms by (simp add: processAlert_def dispatch_def test_order_def numeral_2_eq_2)


text \<open>A token made by \<open>nanoid\<close> holds no slash.\<close>

lemma nanoid_token_no_slash:
  assumes "nanoid_token n t"
  shows "CHR ''/'' \<notin> set t"
proof
  assume "CHR ''/'' \<in> set t"
  then have "CHR ''/'' \<in> set urlAlphabet"
    using assms by (auto simp: nanoid_token_def list_all_iff)
  then show False by (simp add: urlAlphabet_def)
qed

text \<open>
  A body that is not JSON: when the steps after the parse succeed, the order parameters
  hold the bot's defaults only, and the dispatch takes place with them.
\<close>

lemma unparseable_alert_dispatch:
  assumes "http_method req = ''POST''"
      and "\<not> env_missing w"
      and "json req = Unparseable"
      and "select_webhook w (webhook_token_of (pathname req)) (clock w 0) = Some webhook"
      and "select_api_key w (user_id webhook) = Some k"
      and "bots webhook = Some b"
      and "js_or (bot_symbol b) (Str []) = Str s"
      and "lot_filter (instruments_info w (instruments_info_url
             (if truthy (test_mode b) then TESTNET_URL w else MAINNET_URL w)
             (map to_upper_char s))) = Inr f"
      and "normalize_quantity (js_nullish (minOrderQty f) (minTrdAmt f))
             (js_nullish (qtyStep f) (stepSize f))
             (js_nullish (default_quantity b) (Num (Fin 0))) = Inr q"
  shows "(let p = \<lparr>apiKey = api_key k, apiSecret = api_secret k,
                    symbol = map to_upper_char s,
                    side = js_or (default_side b) (Str ''Buy''),
                    orderType = js_or (default_order_type b) (Str ''Market''),
                    quantity = q, price = Undefined,
                    stopLoss = default_stop_loss b, takeProfit = default_take_profit b,
                    testnet = test_mode b\<rparr>;
              es = [Select_Webhook (webhook_token_of (pathname req)) (toISOString (clock w 0)),
                    Select_Api_Key (user_id webhook),
                    Fetch_Instruments_Info (instruments_info_url
                      (if truthy (test_mode b) then TESTNET_URL w else MAINNET_URL w)
                      (map to_upper_char s))]
          in receive w req = (Inr (webhook, b, p), es)
           \<and> (truthy (test_mode b) \<longrightarrow>
                processAlert w req =
                  (\<lparr>http_status = 200,
                    body = Alert_Body (Str (''test-'' @ show_int (clock w 1))) (Str ''TEST_ORDER'')
                             (test_mode b)\<rparr>,
                   es @ log_trade w webhook b (test_order p (clock w 1)) 2))
           \<and> (\<not> truthy (test_mode b) \<longrightarrow>
                Execute_Order p \<in> set (snd (processAlert w req))))"
proof -
  define url where "url = instruments_info_url
      (if truthy (test_mode b) then TESTNET_URL w else MAINNET_URL w) (map to_upper_char s)"
  define p where "p = \<lparr>apiKey = api_key k, apiSecret = api_secret k,
      symbol = map to_upper_char s,
      side = js_or (default_side b) (Str ''Buy''),
      orderType = js_or (default_order_type b) (Str ''Market''),
      quantity = q, price = Undefined,
      stopLoss = default_stop_loss b, takeProfit = default_take_profit b,
      testnet = test_mode b\<rparr>"
  define es where "es = [Select_Webhook (webhook_token_of (pathname req)) (toISOString (clock w 0)),
      Select_Api_Key (user_id webhook), Fetch_Instruments_Info url]"
  have data: "alert_data (json req) = Json_Fields empty_alert"
    using assms(3) by (simp add: alert_data_def)
  have sy: "order_symbol empty_alert b = Inr (map to_upper_char s)"
    using assms(7) by (simp add: order_symbol_def empty_alert_def js_or_def del: list.map)
  have qty: "adjusted_quantity f empty_alert b = Inr q"
    using assms(9) by (simp add: adjusted_quantity_def empty_alert_def js_nullish_def)
  have params: "build_order_params k (map to_upper_char s) empty_alert b q = p"
    by (simp add: build_order_params_def empty_alert_def js_or_def p_def del: list.map)
  have prepared: "prepare_order w webhook k (Json_Fields empty_alert)
      = (Inr (b, p), [Fetch_Instruments_Info url])"
    using assms(8)
    by (simp add: prepare_order_def assms(6) sy url_def[symmetric] qty params Let_def
        del: list.map)
  have received: "receive w req = (Inr (webhook, b, p), es)"
    unfolding receive_post[OF assms(1,2)] assms(4) data
    by (simp add: assms(5) prepared es_def)
  have test: "processAlert w req =
      (\<lparr>http_status = 200,
        body = Alert_Body (Str (''test-'' @ show_int (clock w 1))) (Str ''TEST_ORDER'')
                 (test_mode b)\<rparr>,
       es @ log_trade w webhook b (test_order p (clock w 1)) 2)"
    if "truthy (test_mode b)"
    using received that by (rule processAlert_test_mode)
  have live: "Execute_Order p \<in> set (snd (processAlert w req))" if "\<not> truthy (test_mode b)"
    using that
    by (cases "executeBybitOrder w p")
       (auto simp: processAlert_def received dispatch_def split: option.splits)
  have "receive w req = (Inr (webhook, b, p), es)
      \<and> (truthy (test_mode b) \<longrightarrow>
           processAlert w req =
             (\<lparr>http_status = 200,
               body = Alert_Body (Str (''test-'' @ show_int (clock w 1))) (Str ''TEST_ORDER'')
                        (test_mode b)\<rparr>,
              es @ log_trade w webhook b (test_order p (clock w 1)) 2))
      \<and> (\<not> truthy (test_mode b) \<longrightarrow> Execute_Order p \<in> set (snd (processAlert w req)))"
    using received test live by (intro conjI impI)
  then show ?thesis unfolding p_def es_def url_def Let_def .
qed

section \<open>The example deployment at work\<close>

lemma example_quantity:
  "normalize_quantity (Str ''0.01'') (Str ''0.01'') (Str ''0.127'') = Inr (parseFloat ''0.12'')"
  by (simp add: normalize_quantity_def adjust_quantity_def parseFloat_0_01 parseFloat_0_127
      parseFloat_0_12 toFixed_def round_double_eval round_magnitude_eval[where e = "- 4"]
      round_magnitude_eval[where e = "3"])

lemma upper_btcusdt: "map to_upper_char ''btcusdt'' = ''BTCUSDT''"
  by code_simp

lemma example_symbol:
  "order_symbol example_alert example_bot = Inr ''BTCUSDT''"
  "order_symbol empty_alert example_bot = Inr ''BTCUSDT''"
  "order_symbol example_alert live_bot = Inr ''BTCUSDT''"
  by (simp_all add: order_symbol_def example_alert_def empty_alert_def example_bot_def
      live_bot_def js_or_def upper_btcusdt del: list.map)

lemma example_token:
  "webhook_token_of ''/.netlify/functions/processAlert/live-token'' = ''live-token''"
  "webhook_token_of ''/.netlify/functions/processAlert/real-token'' = ''real-token''"
  "webhook_token_of ''/.netlify/functions/processAlert/old-token'' = ''old-token''"
  by (simp_all add: webhook_token_of_def)

lemma example_env: "\<not> env_missing example_world"
  by (simp add: env_missing_def example_world_def)

lemma example_select_webhook:
  "select_webhook example_world ''live-token'' 1705312800000 = Some example_webhook"
  "select_webhook example_world ''real-token'' 1705312800000 = Some live_webhook"
  "select_webhook example_world ''old-token'' 1705312800000 = None"
  by (simp_all add: select_webhook_def example_world_def example_webhook_def
      expired_webhook_def live_webhook_def)

lemma example_select_api_key:
  "select_api_key example_world (Str ''user-1'') = Some example_key"
  by (simp add: select_api_key_def example_world_def example_key_def)

lemma example_world_fields:
  "clock example_world k = 1705312800000 + int k"
  "TESTNET_URL example_world = ''https://api-testnet.bybit.com''"
  "MAINNET_URL example_world = ''https://api.bybit.com''"
  "instruments_info example_world url =
     Info \<lparr>retCode = Num (Fin 0), retMsg = Str ''OK'', lotSizeFilter = Some example_filter\<rparr>"
  "executeBybitOrder example_world p = Order_Resolves (Some (example_result p))"
  by (simp_all add: example_world_def)

lemma example_lot_filter: "lot_filter (instruments_info example_world url) = Inr example_filter"
  by (simp add: example_world_fields lot_filter_def)

lemma example_adjusted_quantity:
  "adjusted_quantity example_filter example_alert example_bot = Inr (parseFloat ''0.12'')"
  "adjusted_quantity example_filter example_alert live_bot = Inr (parseFloat ''0.12'')"
  by (simp_all add: adjusted_quantity_def example_filter_def js_nullish_def example_alert_def
      example_quantity)

lemma example_build_order_params:
  "build_order_params example_key ''BTCUSDT'' example_alert example_bot (parseFloat ''0.12'')
     = example_params"
  "build_order_params example_key ''BTCUSDT'' example_alert live_bot (parseFloat ''0.12'')
     = example_params\<lparr>testnet := Bool False\<rparr>"
  by (simp_all add: build_order_params_def example_key_def example_alert_def empty_alert_def
      example_bot_def live_bot_def js_or_def example_params_def)

lemma example_prepare_order:
  "prepare_order example_world example_webhook example_key (Json_Fields example_alert) =
     (Inr (example_bot, example_params),
      [Fetch_Instruments_Info
         ''https://api-testnet.bybit.com/v5/market/instruments-info?symbol=BTCUSDT&category=linear''])"
proof -
  have b: "bots example_webhook = Some example_bot" by (simp add: example_webhook_def)
  have t: "truthy (test_mode example_bot)" by (simp add: example_bot_def)
  show ?thesis
    by (simp add: prepare_order_def b t example_symbol example_world_fields example_lot_filter
        example_adjusted_quantity example_build_order_params instruments_info_url_def
        lot_filter_def Let_def)
qed

lemma live_prepare_order:
  "prepare_order example_world live_webhook example_key (Json_Fields example_alert) =
     (Inr (live_bot, example_params\<lparr>testnet := Bool False\<rparr>),
      [Fetch_Instruments_Info
         ''https://api.bybit.com/v5/market/instruments-info?symbol=BTCUSDT&category=linear''])"
proof -
  have b: "bots live_webhook = Some live_bot" by (simp add: live_webhook_def)
  have t: "\<not> truthy (test_mode live_bot)" by (simp add: live_bot_def)
  show ?thesis
    by (simp add: prepare_order_def b t example_symbol example_world_fields example_lot_filter
        example_adjusted_quantity example_build_order_params instruments_info_url_def
        lot_filter_def Let_def)
qed

lemma example_receive:
  "receive example_world example_request =
     (Inr (example_webhook, example_bot, example_params),
      [Select_Webhook ''live-token'' (toISOString 1705312800000),
       Select_Api_Key (Str ''user-1''),
       Fetch_Instruments_Info
         ''https://api-testnet.bybit.com/v5/market/instruments-info?symbol=BTCUSDT&category=linear''])"
proof -
  have m: "http_method example_request = ''POST''" by (simp add: example_request_def)
  have c: "clock example_world 0 = 1705312800000" by (simp add: example_world_fields)
  have p: "pathname example_request = ''/.netlify/functions/processAlert/live-token''"
    by (simp add: example_request_def)
  have j: "alert_data (json example_request) = Json_Fields example_alert"
    by (simp add: example_request_def alert_data_def)
  have u: "user_id example_webhook = Str ''user-1''" by (simp add: example_webhook_def)
  show ?thesis
    unfolding receive_post[OF m example_env] c p j example_token example_select_webhook
    by (simp add: u example_select_api_key example_prepare_order)
qed


lemma live_receive:
  "receive example_world live_request =
     (Inr (live_webhook, live_bot, example_params\<lparr>testnet := Bool False\<rparr>),
      [Select_Webhook ''real-token'' (toISOString 1705312800000),
       Select_Api_Key (Str ''user-1''),
       Fetch_Instruments_Info
         ''https://api.bybit.com/v5/market/instruments-info?symbol=BTCUSDT&category=linear''])"
proof -
  have m: "http_method live_request = ''POST''" by (simp add: live_request_def example_request_def)
  have c: "clock example_world 0 = 1705312800000" by (simp add: example_world_fields)
  have p: "pathname live_request = ''/.netlify/functions/processAlert/real-token''"
    by (simp add: live_request_def)
  have j: "alert_data (json live_request) = Json_Fields example_alert"
    by (simp add: live_request_def example_request_def alert_data_def)
  have u: "user_id live_webhook = Str ''user-1''" by (simp add: live_webhook_def)
  show ?thesis
    unfolding receive_post[OF m example_env] c p j example_token example_select_webhook
    by (simp add: u example_select_api_key live_prepare_order)
qed


lemma priced_receive:
  "receive example_world priced_request =
     (Inr (example_webhook, example_bot, example_params\<lparr>price := Num (Fin 42000)\<rparr>),
      [Select_Webhook ''live-token'' (toISOString 1705312800000),
       Select_Api_Key (Str ''user-1''),
       Fetch_Instruments_Info
         ''https://api-testnet.bybit.com/v5/market/instruments-info?symbol=BTCUSDT&category=linear''])"
proof -
  have m: "http_method priced_request = ''POST''"
    by (simp add: priced_request_def example_request_def)
  have c: "clock example_world 0 = 1705312800000" by (simp add: example_world_fields)
  have p: "pathname priced_request = ''/.netlify/functions/processAlert/live-token''"
    by (simp add: priced_request_def example_request_def)
  have j: "alert_data (json priced_request)
      = Json_Fields (example_alert\<lparr>alert_price := Num (Fin 42000)\<rparr>)"
    by (simp add: priced_request_def alert_data_def)
  have u: "user_id example_webhook = Str ''user-1''" by (simp add: example_webhook_def)
  show ?thesis
    unfolding receive_post[OF m example_env] c p j example_token example_select_webhook
    by (simp add: u example_select_api_key prepare_order_price[OF example_prepare_order])
qed

lemma later_receive:
  "receive later_world example_request = receive example_world example_request"
  unfolding later_world_def by (rule receive_clock) (simp add: example_world_fields)

lemma digit_chars:
  "char_of (48::nat) = CHR ''0''" "char_of (49::nat) = CHR ''1''" "char_of (50::nat) = CHR ''2''"
  "char_of (51::nat) = CHR ''3''" "char_of (52::nat) = CHR ''4''" "char_of (53::nat) = CHR ''5''"
  "char_of (54::nat) = CHR ''6''" "char_of (55::nat) = CHR ''7''" "char_of (56::nat) = CHR ''8''"
  "char_of (57::nat) = CHR ''9''"
  by code_simp+

lemma show_example_times:
  "show_int 1705312800001 = ''1705312800001''"
  "show_int 1705312860000 = ''1705312860000''"
  by (simp_all add: show_int_def show_nat.simps digit_chars)

lemma replicate_small:
  "replicate 1 x = [x]" "replicate 2 x = [x, x]" "replicate 3 x = [x, x, x]"
  by (simp_all add: numeral_2_eq_2 numeral_3_eq_3)

lemmas iso_eval = replicate_small toISOString_def year_text_def pad_def YearFromTime_def MonthFromTime_def
  DateFromTime_def DayWithinYear_def InLeapYear_def DaysInYear_def DayFromYear_def Day_def
  msPerDay_def month_start_def HourFromTime_def MinFromTime_def SecFromTime_def msFromTime_def
  show_nat.simps digit_chars Let_def

lemma empty_quantity:
  "normalize_quantity (Str ''0.01'') (Str ''0.01'') (Num (Fin 0)) = Inr (parseFloat ''0.01'')"
  by (simp add: normalize_quantity_def adjust_quantity_def parseFloat_0_01 toFixed_def
      round_double_eval round_magnitude_eval[where e = "- 7"])

section \<open>Facts about generateWebhook\<close>

text \<open>
  Which values have text: every primitive value, an array when each of its elements has,
  and an object when it has no property \<open>toString\<close> of its own.
\<close>

lemma stringifies_Primitive: "stringifies (Primitive v)"
  by (simp add: stringifies_def)

lemma collect_values:
  "(\<exists>ys. collect rs = Inr ys) \<longleftrightarrow> (\<forall>r \<in> set rs. \<exists>y. r = Inr y)"
proof (induction rs)
  case Nil
  show ?case by simp
next
  case (Cons r rs)
  show ?case
  proof (cases r)
    case (Inl e)
    then show ?thesis by auto
  next
    case (Inr y)
    then show ?thesis using Cons.IH by (auto split: sum.splits)
  qed
qed

lemma stringifies_Array:
  "stringifies (Array xs) \<longleftrightarrow> (\<forall>x \<in> set xs. stringifies x)"
proof -
  define g where "g = (\<lambda>x. if x = Primitive Undefined \<or> x = Primitive Null then Inr []
                              else ToString x)"
  have g: "(\<exists>s. g x = Inr s) \<longleftrightarrow> stringifies x" for x
    by (auto simp: g_def stringifies_def split: sum.splits)
  have "stringifies (Array xs) \<longleftrightarrow> (\<exists>ss. collect (map g xs) = Inr ss)"
    by (auto simp: stringifies_def g_def split: sum.splits)
  also have "\<dots> \<longleftrightarrow> (\<forall>x \<in> set xs. \<exists>s. g x = Inr s)"
    unfolding collect_values by auto
  finally show ?thesis unfolding g .
qed

lemma stringifies_Object:
  "stringifies (Object props) \<longleftrightarrow> \<not> has_own ''toString'' props"
  by (simp add: stringifies_def)

lemma falsy_stringifies: "\<not> truthy_value v \<Longrightarrow> stringifies v"
  by (cases v) (simp_all add: stringifies_def)

lemma request_log_stringifies:
  "(\<exists>text. request_log uid bid days = Inr text)
     \<longleftrightarrow> stringifies uid \<and> stringifies bid \<and> stringifies days"
  by (auto simp: request_log_def stringifies_def split: sum.splits)

text \<open>
  A request answered 200 with thirty days of validity: the expiry is the instant at
  which the local time of the host is that of the request thirty calendar days later.
\<close>

lemma generateWebhook_thirty_days:
  assumes "http_status (fst (generateWebhook w req)) = 200"
      and "json req = Json_Fields f"
      and "expirationDays f = Primitive (Num (Fin 30)) \<or> expirationDays f = Primitive Undefined"
  shows "generateWebhook w req =
           (\<lparr>http_status = 200,
             body = Webhook_Body (webhook_url req (nanoid w 32))
                      (toISOString (UTC (LocalTZA w)
                         (LocalTime (LocalTZA w) (clock w 0) + 30 * msPerDay)))\<rparr>,
            [Insert_Webhook
               \<lparr>ins_user_id = userId f, ins_bot_id = botId f,
                ins_webhook_token = nanoid w 32,
                ins_expires_at = toISOString (UTC (LocalTZA w)
                         (LocalTime (LocalTZA w) (clock w 0) + 30 * msPerDay)),
                ins_created_at = toISOString (clock w 1)\<rparr>])"
proof -
  define days where
    "days = (if expirationDays f = Primitive Undefined then Primitive (Num (Fin 30))
             else expirationDays f)"
  define expiry where
    "expiry = UTC (LocalTZA w) (LocalTime (LocalTZA w) (clock w 0) + 30 * msPerDay)"
  have days: "days = Primitive (Num (Fin 30))" using assms(3) by (auto simp: days_def)
  have prim: "ToPrimitive days = Inr (Num (Fin 30))" by (simp add: days)
  have set: "setDate (LocalTZA w) (clock w 0)
      (to_number (day_plus (getDate (LocalTZA w) (clock w 0)) (Num (Fin 30))))
      = TimeClip expiry"
    unfolding day_plus_thirty expiry_def by (rule setDate_plus_days)
  have clip: "TimeClip expiry = Some expiry \<or> TimeClip expiry = None"
    by (simp add: TimeClip_def)
  show ?thesis
    using assms(1) clip
    unfolding expiry_def[symmetric]
    by (auto simp: generateWebhook_def assms(2) days_def[symmetric] prim set Let_def
        simp del: day_plus.simps to_number.simps
        split: if_splits option.splits sum.splits)
qed

text \<open>The same result from what the request and the host are, for a request that passes every check.\<close>

lemma generateWebhook_accepts:
  assumes "http_method req = ''POST''"
      and "\<not> env_missing w"
      and "json req = Json_Fields f"
      and "expirationDays f = Primitive (Num (Fin 30)) \<or> expirationDays f = Primitive Undefined"
      and "truthy_value (userId f)" "truthy_value (botId f)"
      and "stringifies (userId f)" "stringifies (botId f)"
      and "webhooks_insert_error w = None"
      and "UTC (LocalTZA w) (LocalTime (LocalTZA w) (clock w 0) + 30 * msPerDay) = expiry"
      and "\<bar>expiry\<bar> \<le> 8640000000000000"
  shows "generateWebhook w req =
           (\<lparr>http_status = 200,
             body = Webhook_Body (webhook_url req (nanoid w 32)) (toISOString expiry)\<rparr>,
            [Insert_Webhook
               \<lparr>ins_user_id = userId f, ins_bot_id = botId f,
                ins_webhook_token = nanoid w 32,
                ins_expires_at = toISOString expiry,
                ins_created_at = toISOString (clock w 1)\<rparr>])"
proof -
  define days where
    "days = (if expirationDays f = Primitive Undefined then Primitive (Num (Fin 30))
             else expirationDays f)"
  have days: "days = Primitive (Num (Fin 30))" using assms(4) by (auto simp: days_def)
  have prim: "ToPrimitive days = Inr (Num (Fin 30))" by (simp add: days)
  have "stringifies days" unfolding days by (rule stringifies_Primitive)
  with assms(7,8) obtain line where log: "request_log (userId f) (botId f) days = Inr line"
    using request_log_stringifies by blast
  have "setDate (LocalTZA w) (clock w 0)
      (to_number (day_plus (getDate (LocalTZA w) (clock w 0)) (Num (Fin 30))))
      = TimeClip expiry"
    unfolding day_plus_thirty assms(10)[symmetric] by (rule setDate_plus_days)
  also have "\<dots> = Some expiry" using assms(11) by (simp add: TimeClip_def)
  finally have set: "setDate (LocalTZA w) (clock w 0)
      (to_number (day_plus (getDate (LocalTZA w) (clock w 0)) (Num (Fin 30)))) = Some expiry" .
  show ?thesis
    using assms(1,2,5,6,9)
    by (simp add: generateWebhook_def assms(3) days_def[symmetric] log prim set Let_def
        del: day_plus.simps to_number.simps)
qed

section \<open>Claims about quantity normalization\<close>

text \<open>
  Claim C1, as amended. Let the step text parse to a finite \<open>step > 0\<close>, the minimum to a
  finite \<open>minQty \<ge> 0\<close> and the raw quantity to a finite \<open>rawQty \<ge> 0\<close>, let \<open>d\<close> be the
  number of decimals of the step text, and let \<open>minQty\<close> survive printing with \<open>d\<close>
  decimals (\<open>parseFloat(minQty.toFixed(d))\<close> is \<open>minQty\<close>). Then the normalization
  returns a number that is \<open>\<ge> minQty\<close>; it returns \<open>minQty\<close> when \<open>rawQty < minQty\<close>; and
  the number is rounded to \<open>d\<close> decimals, that is, it is the double nearest to a decimal
  with \<open>d\<close> places, unless it is \<open>10\<^sup>2\<^sup>1\<close> or more. That the number is the largest
  multiple of the step not exceeding \<open>rawQty\<close> is not part of the statement: the code
  does not compute it, see claim C2.
\<close>

theorem quantity_normalization_bounds:
  assumes step: "parseFloat s = Fin step" "0 < step"
      and minQty: "parseFloat_val minQtyStr = Fin minQty" "0 \<le> minQty"
      and rawQty: "parseFloat_val rawVal = Fin rawQty" "0 \<le> rawQty"
      and decimals: "decimals_of (Str s) = Inr d"
      and stable: "toFixed (Fin minQty) d = Inr t" "parseFloat_text t = Fin minQty"
  shows "\<exists>q. normalize_quantity minQtyStr (Str s) rawVal = Inr q
           \<and> js_ge q (Fin minQty)
           \<and> (rawQty < minQty \<longrightarrow> q = Fin minQty)
           \<and> ((\<exists>n. q = round_double (of_nat n / 10 ^ d)) \<or> js_ge q (Fin (10 ^ 21)))"
proof -
  define floored where "floored = js_mul (js_floor (js_div (Fin rawQty) (Fin step))) (Fin step)"
  define qty where
    "qty = (if js_lt (Fin rawQty) (Fin minQty) \<or> js_lt floored (Fin minQty)
            then Fin minQty else floored)"
  have d: "\<not> 100 < d" using stable(1) by (auto simp: toFixed_def split: if_splits)
  have run: "normalize_quantity minQtyStr (Str s) rawVal = map_sum id parseFloat_text (toFixed qty d)"
    using step(1) minQty(1) rawQty(1) decimals
    by (simp add: normalize_quantity_def adjust_quantity_cases qty_def floored_def Let_def
        del: decimals_of.simps)
  have kept: "map_sum id parseFloat_text (toFixed (Fin minQty) d) = Inr (Fin minQty)"
    using stable by simp
  have shape: "floored = PosInf \<or> (\<exists>x. 0 \<le> x \<and> floored = Fin x)"
    using floored_multiple_cases[OF rawQty(2) step(2)] by (simp add: floored_def)
  have "qty = PosInf \<or> (\<exists>x. 0 \<le> x \<and> qty = Fin x)"
    using shape minQty(2) by (auto simp: qty_def)
  then have rounded: "\<exists>u. toFixed qty d = Inr u
      \<and> ((\<exists>n. parseFloat_text u = round_double (of_nat n / 10 ^ d))
         \<or> js_ge (parseFloat_text u) (Fin (10 ^ 21)))"
  proof
    assume "qty = PosInf"
    then show ?thesis using d by (simp add: toFixed_def)
  next
    assume "\<exists>x. 0 \<le> x \<and> qty = Fin x"
    then obtain x where x: "0 \<le> x" "qty = Fin x" by blast
    have "\<exists>u. toFixed (Fin x) d = Inr u" using d by (simp add: toFixed_def)
    then obtain u where u: "toFixed (Fin x) d = Inr u" by blast
    from fixed_round_trip_decimal[OF x(1) u] u show ?thesis unfolding x(2) by blast
  qed
  have bounds: "\<exists>u. toFixed qty d = Inr u \<and> js_ge (parseFloat_text u) (Fin minQty)
      \<and> (rawQty < minQty \<longrightarrow> parseFloat_text u = Fin minQty)"
  proof (cases "js_lt (Fin rawQty) (Fin minQty) \<or> js_lt floored (Fin minQty)")
    case True
    then have "qty = Fin minQty" by (simp add: qty_def)
    then show ?thesis using stable minQty(2) by simp
  next
    case False
    then have q: "qty = floored" and ge: "minQty \<le> rawQty" and nlt: "\<not> js_lt floored (Fin minQty)"
      by (auto simp: qty_def)
    from shape have "\<exists>u. toFixed floored d = Inr u \<and> js_ge (parseFloat_text u) (Fin minQty)"
    proof
      assume "floored = PosInf"
      then show ?thesis using d by (simp add: toFixed_def)
    next
      assume "\<exists>x. 0 \<le> x \<and> floored = Fin x"
      then obtain x where x: "floored = Fin x" by blast
      then have "minQty \<le> x" using nlt by simp
      from fixed_round_trip_ge[OF minQty(2) this stable] show ?thesis using x by simp
    qed
    then show ?thesis using q ge by auto
  qed
  from rounded obtain u where u1: "toFixed qty d = Inr u"
      and u4: "(\<exists>n. parseFloat_text u = round_double (of_nat n / 10 ^ d))
         \<or> js_ge (parseFloat_text u) (Fin (10 ^ 21))"
    by blast
  from bounds obtain v where "toFixed qty d = Inr v"
      and v: "js_ge (parseFloat_text v) (Fin minQty)"
        "rawQty < minQty \<longrightarrow> parseFloat_text v = Fin minQty"
    by blast
  then have "v = u" using u1 by simp
  note u = u1 v[unfolded this] u4
  have "normalize_quantity minQtyStr (Str s) rawVal = Inr (parseFloat_text u)"
    using run u(1) by simp
  with u(2-4) show ?thesis by (intro exI[of _ "parseFloat_text u"] conjI)
qed

text \<open>
  The theorem at the specification's example: minimum \<open>0.01\<close>, step \<open>0.01\<close>, raw quantity
  \<open>0.127\<close>. The result is the double \<open>0.12\<close>.
\<close>

theorem quantity_normalization_bounds_witness:
  "parseFloat ''0.01'' = Fin (5764607523034235 / 576460752303423488)
   \<and> (0::rat) < 5764607523034235 / 576460752303423488
   \<and> parseFloat_val (Str ''0.127'') = Fin (571957152676053 / 4503599627370496)
   \<and> (0::rat) \<le> 571957152676053 / 4503599627370496
   \<and> decimals_of (Str ''0.01'') = Inr 2
   \<and> toFixed (Fin (5764607523034235 / 576460752303423488)) 2 = Inr (Decimal_Text False 1 2)
   \<and> parseFloat_text (Decimal_Text False 1 2) = Fin (5764607523034235 / 576460752303423488)
   \<and> normalize_quantity (Str ''0.01'') (Str ''0.01'') (Str ''0.127'') = Inr (parseFloat ''0.12'')
   \<and> js_ge (parseFloat ''0.12'') (parseFloat ''0.01'')
   \<and> parseFloat ''0.12'' = round_double (of_nat 12 / 10 ^ 2)"
proof -
  have step: "parseFloat ''0.01'' = Fin (5764607523034235 / 576460752303423488)"
    by (rule parseFloat_0_01)
  have minQty: "parseFloat_val (Str ''0.01'') = Fin (5764607523034235 / 576460752303423488)"
    by (simp add: parseFloat_0_01)
  have rawQty: "parseFloat_val (Str ''0.127'') = Fin (571957152676053 / 4503599627370496)"
    by (simp add: parseFloat_0_127)
  have decimals: "decimals_of (Str ''0.01'') = Inr 2" by simp
  have t: "toFixed (Fin (5764607523034235 / 576460752303423488)) 2 = Inr (Decimal_Text False 1 2)"
    by (simp add: toFixed_def floor_rat_numeral)
  have reread: "parseFloat_text (Decimal_Text False 1 2) = Fin (5764607523034235 / 576460752303423488)"
    by (simp add: round_double_eval round_magnitude_eval[where e = "- 7"])
  have run: "normalize_quantity (Str ''0.01'') (Str ''0.01'') (Str ''0.127'') = Inr (parseFloat ''0.12'')"
    by (simp add: normalize_quantity_def adjust_quantity_def parseFloat_0_01 parseFloat_0_127
        parseFloat_0_12 toFixed_def round_double_eval round_magnitude_eval[where e = "- 4"]
        round_magnitude_eval[where e = "3"])
  have pos: "(0::rat) < 5764607523034235 / 576460752303423488" by simp
  have nn1: "(0::rat) \<le> 5764607523034235 / 576460752303423488" by simp
  have nn2: "(0::rat) \<le> 571957152676053 / 4503599627370496" by simp
  from quantity_normalization_bounds[OF step pos minQty nn1 rawQty nn2 decimals t reread]
  have "\<exists>q. normalize_quantity (Str ''0.01'') (Str ''0.01'') (Str ''0.127'') = Inr q
          \<and> js_ge q (Fin (5764607523034235 / 576460752303423488))"
    by blast
  then have "js_ge (parseFloat ''0.12'') (parseFloat ''0.01'')"
    using run by (simp add: parseFloat_0_01)
  moreover have "parseFloat ''0.12'' = round_double (of_nat 12 / 10 ^ 2)"
    by (simp add: parseFloat_0_12 round_double_eval round_magnitude_eval[where e = "- 4"])
  ultimately show ?thesis using step rawQty decimals t reread run by simp
qed

text \<open>
  The claim as written fails when the minimum has more decimals than the step: with
  minimum \<open>0.014\<close>, step \<open>0.01\<close> and raw quantity \<open>0\<close>, the quantity is clamped to
  \<open>0.014\<close> and then printed with two decimals, and the result \<open>0.01\<close> is below the
  minimum.
\<close>

theorem quantity_below_minimum_counterexample:
  "js_ge (parseFloat ''0.014'') (Fin 0)
   \<and> js_lt (Fin 0) (parseFloat ''0.01'')
   \<and> normalize_quantity (Str ''0.014'') (Str ''0.01'') (Num (Fin 0)) = Inr (parseFloat ''0.01'')
   \<and> js_lt (parseFloat ''0.01'') (parseFloat ''0.014'')"
  by (simp add: normalize_quantity_def adjust_quantity_def parseFloat_0_01 parseFloat_0_014
      toFixed_def round_double_eval round_magnitude_eval[where e = "- 7"])

text \<open>
  Claim C2 (idempotence) does not hold of the code. With minimum and step \<open>0.1\<close>, the raw
  quantity \<open>0.35\<close> is normalized to \<open>0.3\<close>; normalizing \<open>0.3\<close> again gives \<open>0.2\<close>, because
  the double division \<open>0.3 / 0.1\<close> is \<open>2.9999999999999996\<close> and its floor is \<open>2\<close>.
\<close>

theorem normalization_not_idempotent:
  "normalize_quantity (Str ''0.1'') (Str ''0.1'') (Num (parseFloat ''0.35'')) = Inr (parseFloat ''0.3'')
   \<and> normalize_quantity (Str ''0.1'') (Str ''0.1'') (Num (parseFloat ''0.3'')) = Inr (parseFloat ''0.2'')
   \<and> parseFloat ''0.2'' \<noteq> parseFloat ''0.3''
   \<and> js_div (parseFloat ''0.3'') (parseFloat ''0.1'') = Fin (6755399441055743 / 2251799813685248)"
  by (simp add: normalize_quantity_def adjust_quantity_def parseFloat_0_1 parseFloat_0_2
      parseFloat_0_3 parseFloat_0_35 toFixed_def round_double_eval
      round_magnitude_eval[where e = "1"] round_magnitude_eval[where e = "- 2"]
      round_magnitude_eval[where e = "- 3"])

section \<open>Claims about processAlert\<close>

text \<open>
  Claim C3, as amended. When both Supabase environment variables are set, a POST request
  whose URL token matches no stored webhook row with \<open>expires_at\<close> later than the current
  time is answered 404, whatever its body; the handler has then read the \<open>webhooks\<close> table
  and done nothing else: no order call, no database write.
\<close>

theorem unresolved_token_is_not_found:
  assumes "http_method req = ''POST''"
      and "\<not> env_missing w"
      and "\<not> (\<exists>r \<in> set (webhooks w).
               webhook_token r = webhook_token_of (pathname req) \<and> clock w 0 < expires_at r)"
  shows "processAlert w req =
           (\<lparr>http_status = 404, body = Error_Body ''Invalid or expired webhook''\<rparr>,
            [Select_Webhook (webhook_token_of (pathname req)) (toISOString (clock w 0))])
         \<and> no_side_effects (snd (processAlert w req))"
proof -
  have "filter (\<lambda>r. webhook_token r = webhook_token_of (pathname req) \<and> clock w 0 < expires_at r)
          (webhooks w) = []"
    using assms(3) by (simp add: filter_empty_conv)
  then have "select_webhook w (webhook_token_of (pathname req)) (clock w 0) = None"
    by (simp add: select_webhook_def)
  then have "receive w req =
      (Inl \<lparr>http_status = 404, body = Error_Body ''Invalid or expired webhook''\<rparr>,
       [Select_Webhook (webhook_token_of (pathname req)) (toISOString (clock w 0))])"
    by (simp add: receive_post[OF assms(1,2)])
  then show ?thesis by (simp add: processAlert_early no_side_effects_def)
qed

text \<open>The theorem for the expired token of the example deployment.\<close>

theorem unresolved_token_is_not_found_witness:
  "http_method expired_request = ''POST''
   \<and> \<not> env_missing example_world
   \<and> \<not> (\<exists>r \<in> set (webhooks example_world).
           webhook_token r = webhook_token_of (pathname expired_request)
           \<and> clock example_world 0 < expires_at r)
   \<and> http_status (fst (processAlert example_world expired_request)) = 404
   \<and> no_side_effects (snd (processAlert example_world expired_request))"
proof -
  have m: "http_method expired_request = ''POST''"
    by (simp add: expired_request_def example_request_def)
  have rows: "\<not> (\<exists>r \<in> set (webhooks example_world).
           webhook_token r = webhook_token_of (pathname expired_request)
           \<and> clock example_world 0 < expires_at r)"
    by (simp add: expired_request_def example_token example_world_def example_webhook_def
        expired_webhook_def live_webhook_def)
  from unresolved_token_is_not_found[OF m example_env rows]
  have "http_status (fst (processAlert example_world expired_request)) = 404"
    and "no_side_effects (snd (processAlert example_world expired_request))"
    by (simp_all add: no_side_effects_def)
  then show ?thesis using m example_env rows by blast
qed

text \<open>
  The claim as written, for every POST request, fails when the function is deployed
  without its Supabase variables: the request is answered 500 before any token is looked
  up, also when the table holds no row at all.
\<close>

theorem unconfigured_is_server_error_counterexample:
  "http_method expired_request = ''POST''
   \<and> webhooks unconfigured_world = []
   \<and> http_status (fst (processAlert unconfigured_world expired_request)) = 500"
  by (simp add: expired_request_def example_request_def unconfigured_world_def
      processAlert_def receive_def env_missing_def)

text \<open>
  Claim C7. An alert request that fails at a step before the dispatch is answered with an
  error and has no side effects. For a POST request to a configured function: 404 when
  the token is not resolved, 400 when the owner has no Bybit key, 500 when the exchange
  answers the instrument query with a non-zero \<open>retCode\<close>. And whatever the step at which
  a request ends before the dispatch, no trade row is inserted, no bot row is updated and
  no order call is made.
\<close>

theorem failure_before_dispatch:
  "(http_method req = ''POST'' \<and> \<not> env_missing w \<longrightarrow>
     (select_webhook w (webhook_token_of (pathname req)) (clock w 0) = None \<longrightarrow>
            http_status (fst (processAlert w req)) = 404
            \<and> no_side_effects (snd (processAlert w req)))
       \<and> (\<forall>webhook.
            select_webhook w (webhook_token_of (pathname req)) (clock w 0) = Some webhook
            \<and> select_api_key w (user_id webhook) = None \<longrightarrow>
            http_status (fst (processAlert w req)) = 400
            \<and> no_side_effects (snd (processAlert w req)))
       \<and> (\<forall>webhook k (a::alert) (b::bot) sy j.
            select_webhook w (webhook_token_of (pathname req)) (clock w 0) = Some webhook
            \<and> select_api_key w (user_id webhook) = Some k
            \<and> alert_data (json req) = Json_Fields a \<and> bots webhook = Some b
            \<and> order_symbol a b = Inr sy
            \<and> instruments_info w
                 (instruments_info_url
                    (if truthy (test_mode b) then TESTNET_URL w else MAINNET_URL w) sy) = Info j
            \<and> retCode j \<noteq> Num (Fin 0) \<longrightarrow>
            fst (processAlert w req) =
              \<lparr>http_status = 500, body = Thrown_Body (InstrumentsInfoError (retMsg j))\<rparr>
            \<and> no_side_effects (snd (processAlert w req))))
   \<and> (\<forall>early es. receive w req = (Inl early, es) \<longrightarrow>
        processAlert w req = (early, es) \<and> no_side_effects es)"
  (is "(?P \<longrightarrow> ?A \<and> ?B \<and> ?C) \<and> ?D")
proof -
  have A: ?A if assms: "http_method req = ''POST''" "\<not> env_missing w"
  proof
    assume "select_webhook w (webhook_token_of (pathname req)) (clock w 0) = None"
    then have "receive w req =
        (Inl \<lparr>http_status = 404, body = Error_Body ''Invalid or expired webhook''\<rparr>,
         [Select_Webhook (webhook_token_of (pathname req)) (toISOString (clock w 0))])"
      by (simp add: receive_post[OF assms])
    then have run: "processAlert w req =
        (\<lparr>http_status = 404, body = Error_Body ''Invalid or expired webhook''\<rparr>,
         [Select_Webhook (webhook_token_of (pathname req)) (toISOString (clock w 0))])"
      by (rule processAlert_early)
    show "http_status (fst (processAlert w req)) = 404
        \<and> no_side_effects (snd (processAlert w req))"
      by (simp add: run no_side_effects_def)
  qed
  have B: ?B if assms: "http_method req = ''POST''" "\<not> env_missing w"
  proof (intro allI impI, elim conjE)
    fix webhook
    assume "select_webhook w (webhook_token_of (pathname req)) (clock w 0) = Some webhook"
      "select_api_key w (user_id webhook) = None"
    then have "receive w req =
        (Inl \<lparr>http_status = 400, body = Error_Body ''API credentials not found''\<rparr>,
         [Select_Webhook (webhook_token_of (pathname req)) (toISOString (clock w 0)),
          Select_Api_Key (user_id webhook)])"
      by (simp add: receive_post[OF assms])
    then have run: "processAlert w req =
        (\<lparr>http_status = 400, body = Error_Body ''API credentials not found''\<rparr>,
         [Select_Webhook (webhook_token_of (pathname req)) (toISOString (clock w 0)),
          Select_Api_Key (user_id webhook)])"
      by (rule processAlert_early)
    show "http_status (fst (processAlert w req)) = 400
        \<and> no_side_effects (snd (processAlert w req))"
      by (simp add: run no_side_effects_def)
  qed
  have C: ?C if assms: "http_method req = ''POST''" "\<not> env_missing w"
  proof (intro allI impI, elim conjE)
    fix webhook k and a :: alert and b :: bot and sy j
    define url where
      "url = instruments_info_url (if truthy (test_mode b) then TESTNET_URL w else MAINNET_URL w) sy"
    assume h: "select_webhook w (webhook_token_of (pathname req)) (clock w 0) = Some webhook"
      "select_api_key w (user_id webhook) = Some k"
      "alert_data (json req) = Json_Fields a" "bots webhook = Some b"
      "order_symbol a b = Inr sy"
      "instruments_info w
         (instruments_info_url
            (if truthy (test_mode b) then TESTNET_URL w else MAINNET_URL w) sy) = Info j"
      "retCode j \<noteq> Num (Fin 0)"
    then have "lot_filter (instruments_info w url) = Inl (InstrumentsInfoError (retMsg j))"
      by (simp add: lot_filter_def url_def)
    then have "prepare_order w webhook k (Json_Fields a) =
        (Inl (InstrumentsInfoError (retMsg j)), [Fetch_Instruments_Info url])"
      using h by (simp add: prepare_order_def Let_def url_def)
    then have "receive w req =
        (Inl \<lparr>http_status = 500, body = Thrown_Body (InstrumentsInfoError (retMsg j))\<rparr>,
         [Select_Webhook (webhook_token_of (pathname req)) (toISOString (clock w 0)),
          Select_Api_Key (user_id webhook), Fetch_Instruments_Info url])"
      using h by (simp add: receive_post[OF assms])
    then have run: "processAlert w req =
        (\<lparr>http_status = 500, body = Thrown_Body (InstrumentsInfoError (retMsg j))\<rparr>,
         [Select_Webhook (webhook_token_of (pathname req)) (toISOString (clock w 0)),
          Select_Api_Key (user_id webhook), Fetch_Instruments_Info url])"
      by (rule processAlert_early)
    show "fst (processAlert w req) =
          \<lparr>http_status = 500, body = Thrown_Body (InstrumentsInfoError (retMsg j))\<rparr>
        \<and> no_side_effects (snd (processAlert w req))"
      by (simp add: run no_side_effects_def)
  qed
  have D: ?D
  proof (intro allI impI)
    fix early es
    assume r: "receive w req = (Inl early, es)"
    then have "processAlert w req = (early, es)" by (rule processAlert_early)
    moreover have "no_side_effects es"
      using receive_quiet[OF r] by (simp add: no_side_effects_iff)
    ultimately show "processAlert w req = (early, es) \<and> no_side_effects es" by (rule conjI)
  qed
  have "?P \<longrightarrow> ?A \<and> ?B \<and> ?C"
  proof
    assume "?P"
    then have m: "http_method req = ''POST''" and e: "\<not> env_missing w" by simp_all
    show "?A \<and> ?B \<and> ?C" by (rule conjI[OF A[OF m e] conjI[OF B[OF m e] C[OF m e]]])
  qed
  then show ?thesis using D by (rule conjI)
qed

text \<open>
  The three failures in the example deployment: the expired token; the live token when the
  owner's key is gone; the live token when the exchange answers \<open>retCode\<close> 10001.
\<close>

theorem failure_before_dispatch_witness:
  "http_method example_request = ''POST'' \<and> http_method expired_request = ''POST''
   \<and> \<not> env_missing example_world \<and> \<not> env_missing keyless_world
   \<and> \<not> env_missing refusing_world
   \<and> select_webhook example_world (webhook_token_of (pathname expired_request))
        (clock example_world 0) = None
   \<and> http_status (fst (processAlert example_world expired_request)) = 404
   \<and> no_side_effects (snd (processAlert example_world expired_request))
   \<and> select_webhook keyless_world (webhook_token_of (pathname example_request))
        (clock keyless_world 0) = Some example_webhook
   \<and> select_api_key keyless_world (user_id example_webhook) = None
   \<and> http_status (fst (processAlert keyless_world example_request)) = 400
   \<and> no_side_effects (snd (processAlert keyless_world example_request))
   \<and> select_webhook refusing_world (webhook_token_of (pathname example_request))
        (clock refusing_world 0) = Some example_webhook
   \<and> select_api_key refusing_world (user_id example_webhook) = Some example_key
   \<and> http_status (fst (processAlert refusing_world example_request)) = 500
   \<and> body (fst (processAlert refusing_world example_request))
       = Thrown_Body (InstrumentsInfoError (Str ''params error''))
   \<and> no_side_effects (snd (processAlert refusing_world example_request))"
proof -
  have m1: "http_method example_request = ''POST''" by (simp add: example_request_def)
  have m2: "http_method expired_request = ''POST''"
    by (simp add: expired_request_def example_request_def)
  have e2: "\<not> env_missing keyless_world"
    by (simp add: env_missing_def keyless_world_def example_world_def)
  have e3: "\<not> env_missing refusing_world"
    by (simp add: env_missing_def refusing_world_def example_world_def)
  have a: "select_webhook example_world (webhook_token_of (pathname expired_request))
        (clock example_world 0) = None"
    by (simp add: expired_request_def example_token example_world_fields example_select_webhook)
  have b1: "select_webhook keyless_world (webhook_token_of (pathname example_request))
        (clock keyless_world 0) = Some example_webhook"
    by (simp add: example_request_def example_token select_webhook_def keyless_world_def
        example_world_def example_webhook_def expired_webhook_def live_webhook_def)
  have b2: "select_api_key keyless_world (user_id example_webhook) = None"
    by (simp add: select_api_key_def keyless_world_def example_world_def)
  have c1: "select_webhook refusing_world (webhook_token_of (pathname example_request))
        (clock refusing_world 0) = Some example_webhook"
    by (simp add: example_request_def example_token select_webhook_def refusing_world_def
        example_world_def example_webhook_def expired_webhook_def live_webhook_def)
  have c2: "select_api_key refusing_world (user_id example_webhook) = Some example_key"
    by (simp add: select_api_key_def refusing_world_def example_world_def example_key_def
        example_webhook_def)
  have c3: "alert_data (json example_request) = Json_Fields example_alert"
    by (simp add: example_request_def alert_data_def)
  have c4: "bots example_webhook = Some example_bot" by (simp add: example_webhook_def)
  have c5: "instruments_info refusing_world
        (instruments_info_url
           (if truthy (test_mode example_bot) then TESTNET_URL refusing_world
            else MAINNET_URL refusing_world) ''BTCUSDT'')
      = Info \<lparr>retCode = Num (Fin 10001), retMsg = Str ''params error'', lotSizeFilter = None\<rparr>"
    by (simp add: refusing_world_def)
  have first: "http_status (fst (processAlert example_world expired_request)) = 404
      \<and> no_side_effects (snd (processAlert example_world expired_request))"
    using failure_before_dispatch[of expired_request example_world, THEN conjunct1, THEN mp,
        OF conjI[OF m2 example_env], THEN conjunct1, THEN mp, OF a] .
  have second: "http_status (fst (processAlert keyless_world example_request)) = 400
      \<and> no_side_effects (snd (processAlert keyless_world example_request))"
    using failure_before_dispatch[of example_request keyless_world, THEN conjunct1, THEN mp,
        OF conjI[OF m1 e2], THEN conjunct2, THEN conjunct1, rule_format, of example_webhook,
        OF conjI[OF b1 b2]] .
  define j where "j = \<lparr>retCode = Num (Fin 10001), retMsg = Str ''params error'',
      lotSizeFilter = None\<rparr>"
  have c6: "retCode j \<noteq> Num (Fin 0)" by (simp add: j_def)
  have c5': "instruments_info refusing_world
        (instruments_info_url
           (if truthy (test_mode example_bot) then TESTNET_URL refusing_world
            else MAINNET_URL refusing_world) ''BTCUSDT'') = Info j"
    unfolding j_def by (rule c5)
  have "fst (processAlert refusing_world example_request)
        = \<lparr>http_status = 500, body = Thrown_Body (InstrumentsInfoError (retMsg j))\<rparr>
      \<and> no_side_effects (snd (processAlert refusing_world example_request))"
    using failure_before_dispatch[of example_request refusing_world, THEN conjunct1, THEN mp,
        OF conjI[OF m1 e3], THEN conjunct2, THEN conjunct2, rule_format,
        of example_webhook example_key example_alert example_bot "''BTCUSDT''" j,
        OF conjI[OF c1 conjI[OF c2 conjI[OF c3 conjI[OF c4 conjI[OF example_symbol(1)
          conjI[OF c5' c6]]]]]]] .
  then have third: "http_status (fst (processAlert refusing_world example_request)) = 500
      \<and> body (fst (processAlert refusing_world example_request))
          = Thrown_Body (InstrumentsInfoError (Str ''params error''))
      \<and> no_side_effects (snd (processAlert refusing_world example_request))"
    by (simp add: j_def)
  show ?thesis using m1 m2 example_env e2 e3 a b1 b2 c1 c2 first second third by blast
qed

text \<open>
  Claim C9. A body that is not JSON does not make processAlert fail: for every request
  the handler does exactly what it does for the empty object \<open>{}\<close>, same response and
  same effects. And take a POST request to a configured function whose token resolves to
  a webhook with its bot and whose owner has a Bybit key. When the bot's symbol is a
  string, the exchange answers the query for that symbol and the bot's default quantity
  (or 0) can be normalized to \<open>q\<close>, then with a body that is not JSON the handler
  reaches the dispatch with order parameters that hold the bot's defaults only: the
  bot's symbol in upper case, its default side or \<open>Buy\<close>, its default order type or
  \<open>Market\<close>, the quantity \<open>q\<close>, no price, and its default stop loss and take profit.
  The dispatch takes place: in test mode the answer is 200 with a test order made of
  these parameters, otherwise \<open>executeBybitOrder\<close> is called with them.
\<close>

theorem unparseable_alert_is_empty_object:
  "processAlert w (req\<lparr>json := Unparseable\<rparr>)
     = processAlert w (req\<lparr>json := Json_Fields empty_alert\<rparr>)
   \<and> (http_method req = ''POST'' \<and> \<not> env_missing w
        \<and> select_webhook w (webhook_token_of (pathname req)) (clock w 0) = Some webhook
        \<and> select_api_key w (user_id webhook) = Some k
        \<and> bots webhook = Some b
        \<and> js_or (bot_symbol b) (Str []) = Str s
        \<and> lot_filter (instruments_info w (instruments_info_url
              (if truthy (test_mode b) then TESTNET_URL w else MAINNET_URL w)
              (map to_upper_char s))) = Inr f
        \<and> normalize_quantity (js_nullish (minOrderQty f) (minTrdAmt f))
              (js_nullish (qtyStep f) (stepSize f))
              (js_nullish (default_quantity b) (Num (Fin 0))) = Inr q
      \<longrightarrow>
        (let p = \<lparr>apiKey = api_key k, apiSecret = api_secret k,
                   symbol = map to_upper_char s,
                   side = js_or (default_side b) (Str ''Buy''),
                   orderType = js_or (default_order_type b) (Str ''Market''),
                   quantity = q, price = Undefined,
                   stopLoss = default_stop_loss b, takeProfit = default_take_profit b,
                   testnet = test_mode b\<rparr>;
             es = [Select_Webhook (webhook_token_of (pathname req)) (toISOString (clock w 0)),
                   Select_Api_Key (user_id webhook),
                   Fetch_Instruments_Info (instruments_info_url
                     (if truthy (test_mode b) then TESTNET_URL w else MAINNET_URL w)
                     (map to_upper_char s))]
         in receive w (req\<lparr>json := Unparseable\<rparr>) = (Inr (webhook, b, p), es)
          \<and> (truthy (test_mode b) \<longrightarrow>
               processAlert w (req\<lparr>json := Unparseable\<rparr>) =
                 (\<lparr>http_status = 200,
                   body = Alert_Body (Str (''test-'' @ show_int (clock w 1))) (Str ''TEST_ORDER'')
                            (test_mode b)\<rparr>,
                  es @ log_trade w webhook b (test_order p (clock w 1)) 2))
          \<and> (\<not> truthy (test_mode b) \<longrightarrow>
               Execute_Order p \<in> set (snd (processAlert w (req\<lparr>json := Unparseable\<rparr>))))))"
  (is "?same \<and> (?given \<longrightarrow> ?dispatched)")
proof
  have "receive w (req\<lparr>json := Unparseable\<rparr>)
      = receive w (req\<lparr>json := Json_Fields empty_alert\<rparr>)"
    by (simp add: receive_def alert_data_def Let_def cong: option.case_cong)
  then show ?same by (simp add: processAlert_def)
next
  show "?given \<longrightarrow> ?dispatched"
  proof
    assume g: ?given
    have m: "http_method (req\<lparr>json := Unparseable\<rparr>) = ''POST''" using g by simp
    have j: "json (req\<lparr>json := Unparseable\<rparr>) = Unparseable" by simp
    have wh: "select_webhook w (webhook_token_of (pathname (req\<lparr>json := Unparseable\<rparr>)))
        (clock w 0) = Some webhook"
      using g by simp
    from g have e: "\<not> env_missing w"
      and key: "select_api_key w (user_id webhook) = Some k"
      and b: "bots webhook = Some b"
      and s: "js_or (bot_symbol b) (Str []) = Str s"
      and f: "lot_filter (instruments_info w (instruments_info_url
              (if truthy (test_mode b) then TESTNET_URL w else MAINNET_URL w)
              (map to_upper_char s))) = Inr f"
      and q: "normalize_quantity (js_nullish (minOrderQty f) (minTrdAmt f))
              (js_nullish (qtyStep f) (stepSize f))
              (js_nullish (default_quantity b) (Num (Fin 0))) = Inr q"
      by blast+
    from unparseable_alert_dispatch[OF m e j wh key b s f q]
    show ?dispatched by simp
  qed
qed

text \<open>
  In the example deployment an unreadable body sent to the bot in test mode is dispatched
  like \<open>{}\<close>: the bot's symbol, the minimum quantity, side \<open>Buy\<close>, order type
  \<open>Market\<close>, and the response is 200 with a test order.
\<close>

theorem unparseable_alert_is_empty_object_witness:
  "http_method example_request = ''POST''
   \<and> \<not> env_missing example_world
   \<and> select_webhook example_world (webhook_token_of (pathname example_request))
         (clock example_world 0) = Some example_webhook
   \<and> select_api_key example_world (user_id example_webhook) = Some example_key
   \<and> bots example_webhook = Some example_bot
   \<and> js_or (bot_symbol example_bot) (Str []) = Str ''btcusdt''
   \<and> truthy (test_mode example_bot)
   \<and> normalize_quantity (Str ''0.01'') (Str ''0.01'') (Num (Fin 0)) = Inr (parseFloat ''0.01'')
   \<and> receive example_world (example_request\<lparr>json := Unparseable\<rparr>) =
       (Inr (example_webhook, example_bot,
             \<lparr>apiKey = Str ''key'', apiSecret = Str ''secret'', symbol = ''BTCUSDT'',
              side = Str ''Buy'', orderType = Str ''Market'', quantity = parseFloat ''0.01'',
              price = Undefined, stopLoss = Null, takeProfit = Null, testnet = Bool True\<rparr>),
        [Select_Webhook ''live-token'' (toISOString 1705312800000),
         Select_Api_Key (Str ''user-1''),
         Fetch_Instruments_Info
           ''https://api-testnet.bybit.com/v5/market/instruments-info?symbol=BTCUSDT&category=linear''])
   \<and> fst (processAlert example_world (example_request\<lparr>json := Unparseable\<rparr>)) =
       \<lparr>http_status = 200,
        body = Alert_Body (Str ''test-1705312800001'') (Str ''TEST_ORDER'') (Bool True)\<rparr>
   \<and> processAlert example_world (example_request\<lparr>json := Unparseable\<rparr>)
       = processAlert example_world (example_request\<lparr>json := Json_Fields empty_alert\<rparr>)"
proof -
  have m: "http_method example_request = ''POST''" by (simp add: example_request_def)
  have path: "pathname example_request = ''/.netlify/functions/processAlert/live-token''"
    by (simp add: example_request_def)
  have c: "clock example_world 0 = 1705312800000" by (simp add: example_world_fields)
  have wh: "select_webhook example_world (webhook_token_of (pathname example_request))
      (clock example_world 0) = Some example_webhook"
    unfolding path c example_token by (rule example_select_webhook)
  have u: "user_id example_webhook = Str ''user-1''" by (simp add: example_webhook_def)
  have key: "select_api_key example_world (user_id example_webhook) = Some example_key"
    unfolding u by (rule example_select_api_key)
  have b: "bots example_webhook = Some example_bot" by (simp add: example_webhook_def)
  have s: "js_or (bot_symbol example_bot) (Str []) = Str ''btcusdt''"
    by (simp add: js_or_def example_bot_def)
  have t: "truthy (test_mode example_bot)" by (simp add: example_bot_def)
  have f: "lot_filter (instruments_info example_world (instruments_info_url
      (if truthy (test_mode example_bot) then TESTNET_URL example_world
       else MAINNET_URL example_world)
      (map to_upper_char ''btcusdt''))) = Inr example_filter"
    by (rule example_lot_filter)
  have q0: "normalize_quantity (Str ''0.01'') (Str ''0.01'') (Num (Fin 0))
      = Inr (parseFloat ''0.01'')"
    by (rule empty_quantity)
  have q: "normalize_quantity (js_nullish (minOrderQty example_filter) (minTrdAmt example_filter))
      (js_nullish (qtyStep example_filter) (stepSize example_filter))
      (js_nullish (default_quantity example_bot) (Num (Fin 0))) = Inr (parseFloat ''0.01'')"
    unfolding q0[symmetric] by (simp add: js_nullish_def example_filter_def example_bot_def)
  have url: "instruments_info_url
      (if truthy (test_mode example_bot) then TESTNET_URL example_world
       else MAINNET_URL example_world) (map to_upper_char ''btcusdt'')
    = ''https://api-testnet.bybit.com/v5/market/instruments-info?symbol=BTCUSDT&category=linear''"
    unfolding upper_btcusdt
    by (simp add: t instruments_info_url_def example_world_fields)
  note whole = unparseable_alert_is_empty_object[where w = example_world
      and req = example_request and webhook = example_webhook and k = example_key
      and b = example_bot and s = "''btcusdt''" and f = example_filter
      and q = "parseFloat ''0.01''"]
  have given: "http_method example_request = ''POST'' \<and> \<not> env_missing example_world
      \<and> select_webhook example_world (webhook_token_of (pathname example_request))
            (clock example_world 0) = Some example_webhook
      \<and> select_api_key example_world (user_id example_webhook) = Some example_key
      \<and> bots example_webhook = Some example_bot
      \<and> js_or (bot_symbol example_bot) (Str []) = Str ''btcusdt''
      \<and> lot_filter (instruments_info example_world (instruments_info_url
            (if truthy (test_mode example_bot) then TESTNET_URL example_world
             else MAINNET_URL example_world)
            (map to_upper_char ''btcusdt''))) = Inr example_filter
      \<and> normalize_quantity (js_nullish (minOrderQty example_filter) (minTrdAmt example_filter))
            (js_nullish (qtyStep example_filter) (stepSize example_filter))
            (js_nullish (default_quantity example_bot) (Num (Fin 0)))
          = Inr (parseFloat ''0.01'')"
    using m example_env wh key b s f q by (intro conjI)
  note inst = whole[THEN conjunct2, THEN mp, OF given, unfolded Let_def, unfolded url,
      unfolded upper_btcusdt]
  have fields: "api_key example_key = Str ''key''" "api_secret example_key = Str ''secret''"
      "js_or (default_side example_bot) (Str ''Buy'') = Str ''Buy''"
      "js_or (default_order_type example_bot) (Str ''Market'') = Str ''Market''"
      "default_stop_loss example_bot = Null" "default_take_profit example_bot = Null"
      "test_mode example_bot = Bool True"
    by (simp_all add: example_key_def example_bot_def js_or_def)
  have id: "show_int (clock example_world 1) = ''1705312800001''"
    by (simp add: example_world_fields show_example_times)
  from inst have "receive example_world (example_request\<lparr>json := Unparseable\<rparr>) =
       (Inr (example_webhook, example_bot,
             \<lparr>apiKey = Str ''key'', apiSecret = Str ''secret'', symbol = ''BTCUSDT'',
              side = Str ''Buy'', orderType = Str ''Market'', quantity = parseFloat ''0.01'',
              price = Undefined, stopLoss = Null, takeProfit = Null, testnet = Bool True\<rparr>),
        [Select_Webhook ''live-token'' (toISOString 1705312800000),
         Select_Api_Key (Str ''user-1''),
         Fetch_Instruments_Info
           ''https://api-testnet.bybit.com/v5/market/instruments-info?symbol=BTCUSDT&category=linear''])"
    unfolding fields path example_token c u by (rule conjunct1)
  moreover have "fst (processAlert example_world (example_request\<lparr>json := Unparseable\<rparr>)) =
       \<lparr>http_status = 200,
        body = Alert_Body (Str ''test-1705312800001'') (Str ''TEST_ORDER'') (Bool True)\<rparr>"
    unfolding inst[THEN conjunct2, THEN conjunct1, THEN mp, OF t] id fields
    by simp
  moreover have "processAlert example_world (example_request\<lparr>json := Unparseable\<rparr>)
       = processAlert example_world (example_request\<lparr>json := Json_Fields empty_alert\<rparr>)"
    using whole by (rule conjunct1)
  ultimately show ?thesis
    using m example_env wh key b s t q0 by (intro conjI)
qed

text \<open>
  Claim C10. When the order parameters are ready for the dispatch and neither the payload
  nor the bot gives a truthy side, the side is \<open>Buy\<close>; likewise the order type is
  \<open>Market\<close>. A falsy value in the payload, the empty string included, is passed over for
  the bot's default. Any order call of the invocation is made with these parameters.
\<close>

theorem hardcoded_side_and_order_type:
  assumes "receive w req = (Inr (webhook, b, p), es)"
      and "alert_data (json req) = Json_Fields a"
  shows "(\<not> truthy (alert_side a) \<and> \<not> truthy (default_side b) \<longrightarrow> side p = Str ''Buy'')
       \<and> (\<not> truthy (alert_orderType a) \<and> \<not> truthy (default_order_type b) \<longrightarrow>
            orderType p = Str ''Market'')
       \<and> (\<not> truthy (alert_side a) \<longrightarrow> side p = js_or (default_side b) (Str ''Buy''))
       \<and> (\<not> truthy (alert_orderType a) \<longrightarrow>
            orderType p = js_or (default_order_type b) (Str ''Market''))
       \<and> (\<forall>q. Execute_Order q \<in> set (snd (processAlert w req)) \<longrightarrow> q = p)"
proof -
  from receive_params[OF assms(1)] obtain k sy q where
    "p = build_order_params k sy a b q"
    using assms(2) by auto
  then have "side p = js_or (js_or (alert_side a) (default_side b)) (Str ''Buy'')"
    and "orderType p = js_or (js_or (alert_orderType a) (default_order_type b)) (Str ''Market'')"
    by (simp_all add: build_order_params_def)
  moreover have "\<forall>q. Execute_Order q \<in> set (snd (processAlert w req)) \<longrightarrow> q = p"
    using processAlert_order_calls[OF assms(1)] by blast
  ultimately show ?thesis by (simp add: js_or_def)
qed

text \<open>
  In the example the payload's side is the empty string and the bot's default side is
  \<open>null\<close>; the payload has no order type and the bot's default is the empty string.
\<close>

theorem hardcoded_side_and_order_type_witness:
  "receive example_world live_request =
     (Inr (live_webhook, live_bot, example_params\<lparr>testnet := Bool False\<rparr>),
      [Select_Webhook ''real-token'' (toISOString 1705312800000),
       Select_Api_Key (Str ''user-1''),
       Fetch_Instruments_Info
         ''https://api.bybit.com/v5/market/instruments-info?symbol=BTCUSDT&category=linear''])
   \<and> alert_data (json live_request) = Json_Fields example_alert
   \<and> \<not> truthy (alert_side example_alert) \<and> \<not> truthy (default_side live_bot)
   \<and> \<not> truthy (alert_orderType example_alert) \<and> \<not> truthy (default_order_type live_bot)
   \<and> side (example_params\<lparr>testnet := Bool False\<rparr>) = Str ''Buy''
   \<and> orderType (example_params\<lparr>testnet := Bool False\<rparr>) = Str ''Market''
   \<and> (Execute_Order (example_params\<lparr>testnet := Bool False\<rparr>)
        \<in> set (snd (processAlert example_world live_request)))"
proof -
  have j: "alert_data (json live_request) = Json_Fields example_alert"
    by (simp add: live_request_def example_request_def alert_data_def)
  have falsy: "\<not> truthy (alert_side example_alert)" "\<not> truthy (default_side live_bot)"
    "\<not> truthy (alert_orderType example_alert)" "\<not> truthy (default_order_type live_bot)"
    by (simp_all add: example_alert_def empty_alert_def live_bot_def example_bot_def)
  from hardcoded_side_and_order_type[OF live_receive j] falsy
  have "side (example_params\<lparr>testnet := Bool False\<rparr>) = Str ''Buy''"
    and "orderType (example_params\<lparr>testnet := Bool False\<rparr>) = Str ''Market''"
    by blast+
  moreover have "Execute_Order (example_params\<lparr>testnet := Bool False\<rparr>)
        \<in> set (snd (processAlert example_world live_request))"
    by (simp add: processAlert_def live_receive dispatch_def live_bot_def example_bot_def
        example_world_fields)
  ultimately show ?thesis using live_receive j falsy by blast
qed

text \<open>
  Claim C6. Once the dispatch, real or simulated, has returned its result, the response
  is 200 with the \<open>orderId\<close> and \<open>status\<close> of that result, whether or not the insert of the
  trade row or the update of the bot reports an error.
\<close>

theorem audit_failure_not_surfaced:
  assumes "receive w req = (Inr (webhook, b, p), es)"
      and "dispatch w b p 1 = (Inr (r, n), e4)"
  shows "fst (processAlert (w\<lparr>trades_insert_error := ti, bots_update_error := bu\<rparr>) req)
           = \<lparr>http_status = 200, body = Alert_Body (orderId r) (status r) (test_mode b)\<rparr>"
  using assms
  by (simp add: processAlert_def receive_audit_flags dispatch_audit_flags)

text \<open>
  In the example the order for the live bot is accepted by the exchange and both audit
  writes fail: the response is 200 with the exchange's order identifier and status, and
  the two failures are only written to the console.
\<close>

theorem audit_failure_not_surfaced_witness:
  "receive example_world live_request =
     (Inr (live_webhook, live_bot, example_params\<lparr>testnet := Bool False\<rparr>),
      [Select_Webhook ''real-token'' (toISOString 1705312800000),
       Select_Api_Key (Str ''user-1''),
       Fetch_Instruments_Info
         ''https://api.bybit.com/v5/market/instruments-info?symbol=BTCUSDT&category=linear''])
   \<and> dispatch example_world live_bot (example_params\<lparr>testnet := Bool False\<rparr>) 1 =
       (Inr (example_result (example_params\<lparr>testnet := Bool False\<rparr>), 1),
        [Execute_Order (example_params\<lparr>testnet := Bool False\<rparr>)])
   \<and> fst (processAlert
            (example_world\<lparr>trades_insert_error := True, bots_update_error := True\<rparr>)
            live_request)
       = \<lparr>http_status = 200, body = Alert_Body (Str ''1234567890'') (Str ''Created'') (Bool False)\<rparr>
   \<and> Console_Error ''Error logging trade:''
        \<in> set (snd (processAlert
            (example_world\<lparr>trades_insert_error := True, bots_update_error := True\<rparr>)
            live_request))
   \<and> Console_Error ''Error updating bot:''
        \<in> set (snd (processAlert
            (example_world\<lparr>trades_insert_error := True, bots_update_error := True\<rparr>)
            live_request))"
proof -
  have d: "dispatch example_world live_bot (example_params\<lparr>testnet := Bool False\<rparr>) 1 =
       (Inr (example_result (example_params\<lparr>testnet := Bool False\<rparr>), 1),
        [Execute_Order (example_params\<lparr>testnet := Bool False\<rparr>)])"
    by (simp add: dispatch_def live_bot_def example_bot_def example_world_fields)
  have "fst (processAlert
            (example_world\<lparr>trades_insert_error := True, bots_update_error := True\<rparr>)
            live_request)
       = \<lparr>http_status = 200, body = Alert_Body (Str ''1234567890'') (Str ''Created'') (Bool False)\<rparr>"
    using audit_failure_not_surfaced[OF live_receive d, of True True]
    by (simp add: example_result_def live_bot_def example_bot_def)
  moreover have "snd (processAlert
            (example_world\<lparr>trades_insert_error := True, bots_update_error := True\<rparr>)
            live_request)
      = snd (receive example_world live_request)
        @ [Execute_Order (example_params\<lparr>testnet := Bool False\<rparr>)]
        @ log_trade (example_world\<lparr>trades_insert_error := True, bots_update_error := True\<rparr>)
            live_webhook live_bot (example_result (example_params\<lparr>testnet := Bool False\<rparr>)) 1"
    using live_receive d
    by (simp add: processAlert_def receive_audit_flags dispatch_audit_flags)
  ultimately show ?thesis using live_receive d by (simp add: log_trade_def)
qed

text \<open>
  Claim C4, as amended. For every alert that reaches the dispatch with the bot's
  \<open>test_mode\<close> truthy: the response is 200 with status \<open>TEST_ORDER\<close> and the order
  identifier \<open>test-\<close> followed by the millisecond clock reading taken at the dispatch; no
  call of \<open>executeBybitOrder\<close> is made; the trade row carries the same identifier and
  status; and two such invocations have the same order identifier exactly when their
  clock readings at the dispatch are the same.
\<close>

theorem test_mode_dispatch:
  assumes "receive w req = (Inr (webhook, b, p), es)" and "truthy (test_mode b)"
      and "receive w' req' = (Inr (webhook', b', p'), es')" and "truthy (test_mode b')"
  shows "fst (processAlert w req) =
           \<lparr>http_status = 200,
            body = Alert_Body (Str (''test-'' @ show_int (clock w 1))) (Str ''TEST_ORDER'')
                     (test_mode b)\<rparr>
       \<and> (\<forall>e \<in> set (snd (processAlert w req)). \<not> is_order_call e)
       \<and> (\<exists>row. Insert_Trade row \<in> set (snd (processAlert w req))
              \<and> trade_status row = Str ''TEST_ORDER''
              \<and> trade_order_id row = Str (''test-'' @ show_int (clock w 1)))
       \<and> (response_order_id (fst (processAlert w req))
            = response_order_id (fst (processAlert w' req'))
          \<longleftrightarrow> clock w 1 = clock w' 1)"
proof -
  note run = processAlert_test_mode[OF assms(1,2)]
  note run' = processAlert_test_mode[OF assms(3,4)]
  have effects: "snd (processAlert w req) = es @ log_trade w webhook b (test_order p (clock w 1)) 2"
    by (simp add: run)
  have "\<forall>e \<in> set es. \<not> is_order_call e"
    using receive_quiet[OF assms(1)] by blast
  then have calls: "\<forall>e \<in> set (snd (processAlert w req)). \<not> is_order_call e"
    unfolding effects
    using log_trade_no_order_call[of w webhook b "test_order p (clock w 1)" 2]
    by (simp add: ball_Un)
  define row where "row =
     \<lparr>trade_user_id = user_id webhook, trade_bot_id = bot_id webhook,
      trade_symbol = Str (symbol p), trade_side = side p, trade_order_type = orderType p,
      trade_quantity = Num (quantity p), trade_price = js_or (price p) (Num (Fin 0)),
      trade_order_id = Str (''test-'' @ show_int (clock w 1)),
      trade_status = Str ''TEST_ORDER'',
      trade_created_at = toISOString (clock w 2)\<rparr>"
  have mem: "Insert_Trade row \<in> set (log_trade w webhook b (test_order p (clock w 1)) 2)"
    by (simp add: log_trade_def test_order_def row_def)
  have mem': "Insert_Trade row \<in> set (snd (processAlert w req))"
    unfolding effects using mem by simp
  have st: "trade_status row = Str ''TEST_ORDER''" by (simp add: row_def)
  have oid: "trade_order_id row = Str (''test-'' @ show_int (clock w 1))" by (simp add: row_def)
  have row: "\<exists>row. Insert_Trade row \<in> set (snd (processAlert w req))
      \<and> trade_status row = Str ''TEST_ORDER''
      \<and> trade_order_id row = Str (''test-'' @ show_int (clock w 1))"
    by (intro exI[of _ row] conjI mem' st oid)
  have id: "response_order_id (fst (processAlert w req)) = Str (''test-'' @ show_int (clock w 1))"
    by (simp add: run response_order_id_def)
  have id': "response_order_id (fst (processAlert w' req')) = Str (''test-'' @ show_int (clock w' 1))"
    by (simp add: run' response_order_id_def)
  have "show_int (clock w 1) = show_int (clock w' 1) \<longleftrightarrow> clock w 1 = clock w' 1"
  proof (rule iffI)
    assume "show_int (clock w 1) = show_int (clock w' 1)"
    then show "clock w 1 = clock w' 1" by (rule show_int_inj)
  next
    assume "clock w 1 = clock w' 1"
    then show "show_int (clock w 1) = show_int (clock w' 1)" by (rule arg_cong)
  qed
  then have ids: "response_order_id (fst (processAlert w req))
      = response_order_id (fst (processAlert w' req')) \<longleftrightarrow> clock w 1 = clock w' 1"
    unfolding id id' by simp
  have resp: "fst (processAlert w req) =
           \<lparr>http_status = 200,
            body = Alert_Body (Str (''test-'' @ show_int (clock w 1))) (Str ''TEST_ORDER'')
                     (test_mode b)\<rparr>"
    by (simp add: run)
  show ?thesis by (intro conjI resp calls row ids)
qed

text \<open>
  The example alert for the bot in test mode, and the same alert handled with the slow
  clock: the order identifiers are \<open>test-1705312800001\<close> and \<open>test-1705312860000\<close>.
\<close>

theorem test_mode_dispatch_witness:
  "receive example_world example_request =
     (Inr (example_webhook, example_bot, example_params),
      [Select_Webhook ''live-token'' (toISOString 1705312800000),
       Select_Api_Key (Str ''user-1''),
       Fetch_Instruments_Info
         ''https://api-testnet.bybit.com/v5/market/instruments-info?symbol=BTCUSDT&category=linear''])
   \<and> receive later_world example_request =
     (Inr (example_webhook, example_bot, example_params),
      [Select_Webhook ''live-token'' (toISOString 1705312800000),
       Select_Api_Key (Str ''user-1''),
       Fetch_Instruments_Info
         ''https://api-testnet.bybit.com/v5/market/instruments-info?symbol=BTCUSDT&category=linear''])
   \<and> truthy (test_mode example_bot)
   \<and> fst (processAlert example_world example_request) =
       \<lparr>http_status = 200,
        body = Alert_Body (Str ''test-1705312800001'') (Str ''TEST_ORDER'') (Bool True)\<rparr>
   \<and> \<not> (\<exists>e \<in> set (snd (processAlert example_world example_request)). is_order_call e)
   \<and> response_order_id (fst (processAlert example_world example_request))
       \<noteq> response_order_id (fst (processAlert later_world example_request))"
proof -
  have t: "truthy (test_mode example_bot)" by (simp add: example_bot_def)
  have r': "receive later_world example_request =
     (Inr (example_webhook, example_bot, example_params),
      [Select_Webhook ''live-token'' (toISOString 1705312800000),
       Select_Api_Key (Str ''user-1''),
       Fetch_Instruments_Info
         ''https://api-testnet.bybit.com/v5/market/instruments-info?symbol=BTCUSDT&category=linear''])"
    by (simp add: later_receive example_receive)
  have c: "clock example_world 1 = 1705312800001" "clock later_world 1 = 1705312860000"
    "clock example_world (Suc 0) = 1705312800001" "clock later_world (Suc 0) = 1705312860000"
    by (simp_all add: example_world_fields later_world_def)
  note inst = test_mode_dispatch[OF example_receive t r' t]
  from inst have i1: "fst (processAlert example_world example_request) =
      \<lparr>http_status = 200,
       body = Alert_Body (Str (''test-'' @ show_int (clock example_world 1))) (Str ''TEST_ORDER'')
                (test_mode example_bot)\<rparr>"
    by (rule conjunct1)
  from inst have "\<forall>e \<in> set (snd (processAlert example_world example_request)).
      \<not> is_order_call e"
    by (elim conjE)
  then have i2: "\<not> (\<exists>e \<in> set (snd (processAlert example_world example_request)).
      is_order_call e)"
    by blast
  from inst have i4: "response_order_id (fst (processAlert example_world example_request))
      = response_order_id (fst (processAlert later_world example_request))
      \<longleftrightarrow> clock example_world 1 = clock later_world 1"
    by (elim conjE)
  have f1: "fst (processAlert example_world example_request) =
       \<lparr>http_status = 200,
        body = Alert_Body (Str ''test-1705312800001'') (Str ''TEST_ORDER'') (Bool True)\<rparr>"
    unfolding i1 c by (simp add: show_example_times example_bot_def)
  have f3: "response_order_id (fst (processAlert example_world example_request))
       \<noteq> response_order_id (fst (processAlert later_world example_request))"
    unfolding i4 c by simp
  show ?thesis by (intro conjI example_receive r' t f1 i2 f3)
qed

text \<open>
  The claim as written, that any two invocations have different order identifiers, fails
  for two alerts dispatched within the same millisecond: the example alert and the same
  alert with a limit price both get \<open>test-1705312800001\<close>.
\<close>

theorem same_millisecond_same_order_id_counterexample:
  "example_request \<noteq> priced_request
   \<and> body (fst (processAlert example_world example_request))
       = Alert_Body (Str ''test-1705312800001'') (Str ''TEST_ORDER'') (Bool True)
   \<and> body (fst (processAlert example_world priced_request))
       = Alert_Body (Str ''test-1705312800001'') (Str ''TEST_ORDER'') (Bool True)"
proof -
  have t: "truthy (test_mode example_bot)" by (simp add: example_bot_def)
  have c: "clock example_world (Suc 0) = 1705312800001" by (simp add: example_world_fields)
  have "json example_request \<noteq> json priced_request"
    by (simp add: priced_request_def example_request_def example_alert_def empty_alert_def)
  then have "example_request \<noteq> priced_request" by auto
  then show ?thesis
    by (simp add: processAlert_test_mode[OF example_receive t]
        processAlert_test_mode[OF priced_receive t] c show_example_times example_bot_def)
qed

section \<open>Claims about generateWebhook\<close>

text \<open>
  Claim C5, as amended. When generateWebhook answers 200 to a request with
  \<open>expirationDays\<close> 30, given as the number or left out, on a host whose offset from UTC
  thirty calendar days after the request is the offset at the request (a host that runs
  in UTC, or no change of summer time in between), and the clock read \<open>D\<close> when the expiry
  was computed, then \<open>expiresAt\<close> is the ISO-8601 text of \<open>D\<close> plus 30 days of 24 hours;
  the inserted row holds the token made by \<open>nanoid(32)\<close> and the same expiry; and the
  part of \<open>webhookUrl\<close> after its last slash is that token. The token is taken to be what
  \<open>nanoid\<close> promises: 32 characters of its alphabet.
\<close>

theorem webhook_expiry_and_url:
  assumes "http_status (fst (generateWebhook w req)) = 200"
      and "json req = Json_Fields f"
      and "expirationDays f = Primitive (Num (Fin 30)) \<or> expirationDays f = Primitive Undefined"
      and "nanoid_token 32 (nanoid w 32)"
      and "LocalTZA w (LocalTime (LocalTZA w) (clock w 0) + 30 * msPerDay) False
             = LocalTZA w (clock w 0) True"
  shows "generateWebhook w req =
           (\<lparr>http_status = 200,
             body = Webhook_Body (webhook_url req (nanoid w 32))
                      (toISOString (clock w 0 + 30 * msPerDay))\<rparr>,
            [Insert_Webhook
               \<lparr>ins_user_id = userId f, ins_bot_id = botId f,
                ins_webhook_token = nanoid w 32,
                ins_expires_at = toISOString (clock w 0 + 30 * msPerDay),
                ins_created_at = toISOString (clock w 1)\<rparr>])
       \<and> last (split_on CHR ''/'' (webhook_url req (nanoid w 32))) = nanoid w 32"
proof -
  have same: "UTC (LocalTZA w) (LocalTime (LocalTZA w) (clock w 0) + 30 * msPerDay)
      = clock w 0 + 30 * msPerDay"
    using assms(5) by (rule UTC_LocalTime_plus)
  have run: "generateWebhook w req =
           (\<lparr>http_status = 200,
             body = Webhook_Body (webhook_url req (nanoid w 32))
                      (toISOString (clock w 0 + 30 * msPerDay))\<rparr>,
            [Insert_Webhook
               \<lparr>ins_user_id = userId f, ins_bot_id = botId f,
                ins_webhook_token = nanoid w 32,
                ins_expires_at = toISOString (clock w 0 + 30 * msPerDay),
                ins_created_at = toISOString (clock w 1)\<rparr>])"
    using generateWebhook_thirty_days[OF assms(1-3)] unfolding same .
  have "last (split_on CHR ''/''
      ((protocol req @ ''//'' @ host req @ ''/.netlify/functions/processAlert'')
        @ CHR ''/'' # nanoid w 32)) = nanoid w 32"
    using nanoid_token_no_slash[OF assms(4)] by (rule last_split_on)
  then have "last (split_on CHR ''/'' (webhook_url req (nanoid w 32))) = nanoid w 32"
    by (simp add: webhook_url_def)
  with run show ?thesis by (rule conjI)
qed

text \<open>
  The example request, issued on 2024-01-15 at 10:00 UTC without \<open>expirationDays\<close> to a
  host that runs in UTC: the webhook expires on 2024-02-14 at 10:00 UTC.
\<close>

theorem webhook_expiry_and_url_witness:
  "http_status (fst (generateWebhook example_world example_webhook_request)) = 200
   \<and> json example_webhook_request
       = Json_Fields \<lparr>userId = Primitive (Str ''user-1''), botId = Primitive (Str ''bot-1''),
                      expirationDays = Primitive Undefined\<rparr>
   \<and> nanoid_token 32 (nanoid example_world 32)
   \<and> LocalTZA example_world
         (LocalTime (LocalTZA example_world) (clock example_world 0) + 30 * msPerDay) False
       = LocalTZA example_world (clock example_world 0) True
   \<and> body (fst (generateWebhook example_world example_webhook_request))
       = Webhook_Body
           ''https://bot.example.app/.netlify/functions/processAlert/V1StGXR8_Z5jdHi6B-myTabcdefghijk''
           (toISOString 1707904800000)
   \<and> toISOString 1707904800000 = ''2024-02-14T10:00:00.000Z''
   \<and> toISOString (clock example_world 0) = ''2024-01-15T10:00:00.000Z''
   \<and> last (split_on CHR ''/''
         ''https://bot.example.app/.netlify/functions/processAlert/V1StGXR8_Z5jdHi6B-myTabcdefghijk'')
       = ''V1StGXR8_Z5jdHi6B-myTabcdefghijk''"
proof -
  define f where
    "f = \<lparr>userId = Primitive (Str ''user-1''), botId = Primitive (Str ''bot-1''),
          expirationDays = Primitive Undefined\<rparr>"
  have token: "nanoid example_world 32 = ''V1StGXR8_Z5jdHi6B-myTabcdefghijk''"
    by (simp add: example_world_def)
  have j: "json example_webhook_request = Json_Fields f"
    by (simp add: example_webhook_request_def f_def)
  have days: "expirationDays f = Primitive (Num (Fin 30)) \<or> expirationDays f = Primitive Undefined"
    by (simp add: f_def)
  have slash: "nanoid_token 32 (nanoid example_world 32)"
    by (simp add: token nanoid_token_def urlAlphabet_def)
  have zone: "LocalTZA example_world
         (LocalTime (LocalTZA example_world) (clock example_world 0) + 30 * msPerDay) False
       = LocalTZA example_world (clock example_world 0) True"
    by (simp add: example_world_def)
  have m: "http_method example_webhook_request = ''POST''"
    by (simp add: example_webhook_request_def)
  have fields: "truthy_value (userId f)" "truthy_value (botId f)"
      "stringifies (userId f)" "stringifies (botId f)"
    by (simp_all add: f_def stringifies_def)
  have ins: "webhooks_insert_error example_world = None" by (simp add: example_world_def)
  have expiry: "UTC (LocalTZA example_world)
      (LocalTime (LocalTZA example_world) (clock example_world 0) + 30 * msPerDay)
      = 1707904800000"
    unfolding UTC_LocalTime_plus[OF zone] by (simp add: msPerDay_def example_world_fields)
  have bound: "\<bar>1707904800000\<bar> \<le> (8640000000000000::int)" by simp
  have ok: "http_status (fst (generateWebhook example_world example_webhook_request)) = 200"
    unfolding generateWebhook_accepts[OF m example_env j days fields ins expiry bound] by simp
  have url: "webhook_url example_webhook_request ''V1StGXR8_Z5jdHi6B-myTabcdefghijk''
      = ''https://bot.example.app/.netlify/functions/processAlert/V1StGXR8_Z5jdHi6B-myTabcdefghijk''"
    by (simp add: webhook_url_def example_webhook_request_def)
  have c: "clock example_world 0 + 30 * msPerDay = 1707904800000"
    by (simp add: example_world_fields msPerDay_def)
  note inst = webhook_expiry_and_url[OF ok j days slash zone]
  from inst have "body (fst (generateWebhook example_world example_webhook_request))
       = Webhook_Body
           ''https://bot.example.app/.netlify/functions/processAlert/V1StGXR8_Z5jdHi6B-myTabcdefghijk''
           (toISOString 1707904800000)"
    unfolding token url c by simp
  moreover from inst have "last (split_on CHR ''/''
         ''https://bot.example.app/.netlify/functions/processAlert/V1StGXR8_Z5jdHi6B-myTabcdefghijk'')
       = ''V1StGXR8_Z5jdHi6B-myTabcdefghijk''"
    unfolding token url by (rule conjunct2)
  moreover have "toISOString 1707904800000 = ''2024-02-14T10:00:00.000Z''"
    by (simp add: iso_eval)
  moreover have "toISOString (clock example_world 0) = ''2024-01-15T10:00:00.000Z''"
    by (simp add: example_world_fields iso_eval)
  ultimately show ?thesis using ok j slash zone unfolding f_def by simp
qed

text \<open>
  The claim as written fails on a host that observes summer time. \<open>setDate\<close> keeps the
  local time of day: a request with \<open>expirationDays\<close> 30 issued on 2024-03-01 at 10:00
  UTC, 11:00 in Central Europe, expires on 2024-03-31 at 11:00 local time, which is 09:00
  UTC, an hour short of thirty days.
\<close>

theorem summer_time_expiry_counterexample:
  "fst (generateWebhook summer_time_world
          (example_webhook_request\<lparr>json := Json_Fields
             \<lparr>userId = Primitive (Str ''user-1''), botId = Primitive (Str ''bot-1''),
              expirationDays = Primitive (Num (Fin 30))\<rparr>\<rparr>))
     = \<lparr>http_status = 200,
        body = Webhook_Body
          ''https://bot.example.app/.netlify/functions/processAlert/V1StGXR8_Z5jdHi6B-myTabcdefghijk''
          ''2024-03-31T09:00:00.000Z''\<rparr>
   \<and> toISOString (clock summer_time_world 0) = ''2024-03-01T10:00:00.000Z''
   \<and> toISOString (clock summer_time_world 0 + 30 * msPerDay) = ''2024-03-31T10:00:00.000Z''"
proof -
  define f where
    "f = \<lparr>userId = Primitive (Str ''user-1''), botId = Primitive (Str ''bot-1''),
          expirationDays = Primitive (Num (Fin 30))\<rparr>"
  define req where "req = example_webhook_request\<lparr>json := Json_Fields f\<rparr>"
  have j: "json req = Json_Fields f" by (simp add: req_def)
  have c: "clock summer_time_world 0 = 1709287200000"
    by (simp add: summer_time_world_def)
  have z: "LocalTZA summer_time_world = central_european_2024"
    by (simp add: summer_time_world_def)
  have e: "\<not> env_missing summer_time_world"
    using example_env by (simp add: env_missing_def summer_time_world_def)
  have local: "LocalTime central_european_2024 1709287200000 = 1709290800000"
    by (simp add: LocalTime_def central_european_2024_def)
  have m: "http_method req = ''POST''"
    by (simp add: req_def example_webhook_request_def)
  have days: "expirationDays f = Primitive (Num (Fin 30)) \<or> expirationDays f = Primitive Undefined"
    by (simp add: f_def)
  have fields: "truthy_value (userId f)" "truthy_value (botId f)"
      "stringifies (userId f)" "stringifies (botId f)"
    by (simp_all add: f_def stringifies_def)
  have ins: "webhooks_insert_error summer_time_world = None"
    by (simp add: summer_time_world_def example_world_def)
  have expiry: "UTC (LocalTZA summer_time_world)
      (LocalTime (LocalTZA summer_time_world) (clock summer_time_world 0) + 30 * msPerDay)
      = 1711875600000"
    unfolding z c local by (simp add: msPerDay_def UTC_def central_european_2024_def)
  have bound: "\<bar>1711875600000\<bar> \<le> (8640000000000000::int)" by simp
  have token: "nanoid summer_time_world 32 = ''V1StGXR8_Z5jdHi6B-myTabcdefghijk''"
    by (simp add: summer_time_world_def example_world_def)
  have url: "webhook_url req ''V1StGXR8_Z5jdHi6B-myTabcdefghijk''
      = ''https://bot.example.app/.netlify/functions/processAlert/V1StGXR8_Z5jdHi6B-myTabcdefghijk''"
    by (simp add: webhook_url_def req_def example_webhook_request_def)
  have "fst (generateWebhook summer_time_world req)
     = \<lparr>http_status = 200,
        body = Webhook_Body
          ''https://bot.example.app/.netlify/functions/processAlert/V1StGXR8_Z5jdHi6B-myTabcdefghijk''
          (toISOString 1711875600000)\<rparr>"
    unfolding generateWebhook_accepts[OF m e j days fields ins expiry bound] token url by simp
  moreover have "toISOString 1711875600000 = ''2024-03-31T09:00:00.000Z''"
    by (simp add: iso_eval)
  moreover have "toISOString (clock summer_time_world 0) = ''2024-03-01T10:00:00.000Z''"
    unfolding c by (simp add: iso_eval)
  moreover have "toISOString (clock summer_time_world 0 + 30 * msPerDay)
      = ''2024-03-31T10:00:00.000Z''"
    unfolding c by (simp add: iso_eval)
  ultimately show ?thesis unfolding req_def f_def by simp
qed

text \<open>
  Claim C8, as amended. When both Supabase environment variables are set, the body of a
  POST request is a JSON value other than \<open>null\<close> in which \<open>userId\<close> or \<open>botId\<close> is
  absent (or otherwise falsy), and the three fields the handler logs have text,
  generateWebhook answers 400 and does nothing else: no webhook row is inserted. A field
  has no text when it is an object with a property \<open>toString\<close> of its own, or an array
  with an element that has no text.
\<close>

theorem missing_fields_rejected:
  assumes "http_method req = ''POST''"
      and "\<not> env_missing w"
      and "json req = Json_Fields f"
      and "\<not> truthy_value (userId f) \<or> \<not> truthy_value (botId f)"
      and "stringifies (userId f)"
      and "stringifies (botId f)"
      and "stringifies (expirationDays f)"
  shows "generateWebhook w req =
           (\<lparr>http_status = 400, body = Error_Body ''Missing required fields''\<rparr>, [])"
proof -
  define days where
    "days = (if expirationDays f = Primitive Undefined then Primitive (Num (Fin 30))
             else expirationDays f)"
  have "stringifies days"
    using assms(7) by (simp add: days_def stringifies_Primitive)
  with assms(5,6) obtain line where "request_log (userId f) (botId f) days = Inr line"
    using request_log_stringifies by blast
  then show ?thesis
    using assms(1-4) by (auto simp: generateWebhook_def days_def[symmetric] Let_def)
qed

text \<open>The example request without its \<open>userId\<close>.\<close>

theorem missing_fields_rejected_witness:
  "http_method (example_webhook_request\<lparr>json := Json_Fields
      \<lparr>userId = Primitive Undefined, botId = Primitive (Str ''bot-1''),
       expirationDays = Primitive Undefined\<rparr>\<rparr>) = ''POST''
   \<and> \<not> env_missing example_world
   \<and> \<not> truthy_value (userId \<lparr>userId = Primitive Undefined, botId = Primitive (Str ''bot-1''),
                              expirationDays = Primitive Undefined\<rparr>)
   \<and> stringifies (Primitive Undefined) \<and> stringifies (Primitive (Str ''bot-1''))
   \<and> generateWebhook example_world
         (example_webhook_request\<lparr>json := Json_Fields
            \<lparr>userId = Primitive Undefined, botId = Primitive (Str ''bot-1''),
             expirationDays = Primitive Undefined\<rparr>\<rparr>)
       = (\<lparr>http_status = 400, body = Error_Body ''Missing required fields''\<rparr>, [])"
proof -
  define f where
    "f = \<lparr>userId = Primitive Undefined, botId = Primitive (Str ''bot-1''),
          expirationDays = Primitive Undefined\<rparr>"
  have m: "http_method (example_webhook_request\<lparr>json := Json_Fields f\<rparr>) = ''POST''"
    by (simp add: example_webhook_request_def)
  have j: "json (example_webhook_request\<lparr>json := Json_Fields f\<rparr>) = Json_Fields f"
    by simp
  have u: "\<not> truthy_value (userId f)" by (simp add: f_def)
  then have u': "\<not> truthy_value (userId f) \<or> \<not> truthy_value (botId f)" by (rule disjI1)
  have s1: "stringifies (Primitive Undefined)" by (simp add: stringifies_def)
  have s2: "stringifies (Primitive (Str ''bot-1''))" by (simp add: stringifies_def)
  have t: "stringifies (userId f)" "stringifies (botId f)" "stringifies (expirationDays f)"
    using s1 s2 by (simp_all add: f_def)
  from missing_fields_rejected[OF m example_env j u' t] m example_env u s1 s2
  show ?thesis unfolding f_def by (intro conjI)
qed

text \<open>
  The claim as written fails for a body that cannot be read as JSON, such as an empty
  one, and for the body \<open>null\<close>: both lack \<open>userId\<close>, \<open>request.json()\<close> or the
  destructuring throws, and the request is answered 500.
\<close>

theorem unreadable_body_is_server_error_counterexample:
  "http_method example_webhook_request = ''POST''
   \<and> \<not> env_missing example_world
   \<and> generateWebhook example_world (example_webhook_request\<lparr>json := Unparseable\<rparr>)
       = (\<lparr>http_status = 500, body = Thrown_Body SyntaxError\<rparr>, [])
   \<and> generateWebhook example_world (example_webhook_request\<lparr>json := Json_Null\<rparr>)
       = (\<lparr>http_status = 500, body = Thrown_Body TypeError\<rparr>, [])"
  by (simp add: generateWebhook_def example_webhook_request_def example_env)

text \<open>
  It also fails for the body \<open>{"botId": {"toString": null}}\<close>, which lacks \<open>userId\<close>:
  the log line throws a TypeError before the fields are checked, and the request is
  answered 500.
\<close>

lemma field_without_text_is_server_error:
  "\<not> truthy_value (userId \<lparr>userId = Primitive Undefined,
                            botId = Object [(''toString'', Primitive Null)],
                            expirationDays = Primitive Undefined\<rparr>)
   \<and> generateWebhook example_world
         (example_webhook_request\<lparr>json := Json_Fields
            \<lparr>userId = Primitive Undefined, botId = Object [(''toString'', Primitive Null)],
             expirationDays = Primitive Undefined\<rparr>\<rparr>)
       = (\<lparr>http_status = 500, body = Thrown_Body TypeError\<rparr>, [])"
  by (simp add: generateWebhook_def example_webhook_request_def example_env request_log_def
      has_own_def)

end
